theory Spec2Isabelle
  imports Complex_Main "HOL-Library.Sublist"
begin

section \<open>The recommendation engine of \<^verbatim>\<open>fastapi_service/core/ai_agents.py\<close>\<close>

text \<open>
  A shallow embedding of the class \<^verbatim>\<open>RecommendationEngine\<close> and of the dataclasses it
  reads and builds. Conventions:
  \<^item> Python \<^verbatim>\<open>float\<close> values are modelled as \<^typ>\<open>real\<close>: arithmetic is exact, rounding
    of IEEE doubles and NaN are outside the model;
  \<^item> Python \<^verbatim>\<open>int\<close> is \<^typ>\<open>int\<close>; \<^verbatim>\<open>str\<close> is \<^typ>\<open>string\<close>, a character being the
    code point of its number, from 0 to 255: text with a code point above 255 is
    outside the model;
  \<^item> an exception is a value \<open>Inl e\<close> of a sum type;
  \<^item> the methods \<^verbatim>\<open>_calculate_skill_match\<close> etc. lose their leading underscore, which
    an Isabelle name cannot have; a variable \<^verbatim>\<open>relevance_score\<close> is written \<open>score\<close>,
    the name being that of the field of \<open>Recommendation\<close>.
\<close>

subsection \<open>Data model\<close>

text \<open>
  \<^verbatim>\<open>UserContext\<close>: the fields \<^verbatim>\<open>activity_patterns\<close> and \<^verbatim>\<open>preferences\<close>
  (\<^verbatim>\<open>Dict[str, Any]\<close>) are never read by the recommendation engine and are left out.
\<close>

record UserContext =
  user_id :: string
  skill_level :: string
  goals :: "string list"
  work_domain :: string
  tools_used :: "string list"
  productivity_score :: real

record AITool =
  id_AITool :: string
  name :: string
  category :: string
  description :: string
  capabilities :: "string list"
  pricing_model :: string
  difficulty_level :: string
  integration_complexity :: int
  user_rating :: real
  use_cases :: "string list"

record Recommendation =
  tool_id :: string
  relevance_score :: real
  confidence :: real
  reasoning :: string
  implementation_complexity :: int
  expected_impact :: string
  learning_time_hours :: int

datatype error = ZeroDivisionError | EncodeError

subsection \<open>Python built-ins used by the engine\<close>

text \<open>\<^verbatim>\<open>d.get(k, default)\<close> on a dictionary.\<close>

definition dict_get :: "('k \<rightharpoonup> 'v) \<Rightarrow> 'k \<Rightarrow> 'v \<Rightarrow> 'v" where
  "dict_get d k dflt = (case d k of None \<Rightarrow> dflt | Some v \<Rightarrow> v)"

text \<open>\<^verbatim>\<open>sep.join(xs)\<close>.\<close>

fun join :: "string \<Rightarrow> string list \<Rightarrow> string" where
  "join sep [] = []"
| "join sep [x] = x"
| "join sep (x # y # ys) = x @ sep @ join sep (y # ys)"

text \<open>
  \<^verbatim>\<open>s.lower()\<close> on code points below 256: the letters A to Z (65 to 90) and the
  accented capitals 192 to 222, the multiplication sign 215 apart, move up by 32; every
  other character stays.
\<close>

definition lower_char :: "char \<Rightarrow> char" where
  "lower_char c =
     (let n = (of_char c :: nat)
      in if (65 \<le> n \<and> n \<le> 90) \<or> (192 \<le> n \<and> n \<le> 222 \<and> n \<noteq> 215)
         then char_of (n + 32) else c)"

definition lower :: "string \<Rightarrow> string" where
  "lower s = map lower_char s"

text \<open>
  \<^verbatim>\<open>c.isspace()\<close> on code points below 256, the whitespace of \<^verbatim>\<open>s.split()\<close>: the
  controls 9 to 13 (tab, line feed, vertical tab, form feed, carriage return), the
  separators 28 to 31, the space 32, the next-line control 133 and the no-break
  space 160.
\<close>

definition isspace :: "char \<Rightarrow> bool" where
  "isspace c =
     (let n = (of_char c :: nat)
      in (9 \<le> n \<and> n \<le> 13) \<or> (28 \<le> n \<and> n \<le> 32) \<or> n = 133 \<or> n = 160)"

text \<open>
  \<^verbatim>\<open>s.split()\<close> with no separator: the maximal runs of characters that are not
  whitespace, in order; never an empty token. \<open>cur\<close> is the token being read.
\<close>

fun split_from :: "string \<Rightarrow> string \<Rightarrow> string list" where
  "split_from cur [] = (if cur = [] then [] else [cur])"
| "split_from cur (c # cs) =
     (if isspace c then (if cur = [] then split_from [] cs else cur # split_from [] cs)
      else split_from (cur @ [c]) cs)"

definition split :: "string \<Rightarrow> string list" where
  "split s = split_from [] s"

text \<open>\<^verbatim>\<open>k in t\<close> on strings: \<open>k\<close> occurs in \<open>t\<close> as a contiguous substring.\<close>

fun contains :: "string \<Rightarrow> string \<Rightarrow> bool" where
  "contains k [] = (k = [])"
| "contains k (c # cs) = (prefix k (c # cs) \<or> contains k cs)"

text \<open>\<^verbatim>\<open>x / y\<close> on numbers raises \<^verbatim>\<open>ZeroDivisionError\<close> when \<open>y\<close> is zero.\<close>

definition truediv :: "real \<Rightarrow> real \<Rightarrow> error + real" where
  "truediv x y = (if y = 0 then Inl ZeroDivisionError else Inr (x / y))"

text \<open>\<^verbatim>\<open>int(x)\<close> on a float truncates towards zero.\<close>

definition int_of_float :: "real \<Rightarrow> int" where
  "int_of_float x = (if 0 \<le> x then \<lfloor>x\<rfloor> else \<lceil>x\<rceil>)"

text \<open>
  \<^verbatim>\<open>xs.sort(key=key, reverse=True)\<close>: CPython reverses the list, sorts it stably in
  ascending order of the key, and reverses it again, so that elements with equal keys
  keep their original order.
\<close>

definition sort_reverse :: "('a \<Rightarrow> real) \<Rightarrow> 'a list \<Rightarrow> 'a list" where
  "sort_reverse key xs = rev (sort_key key (rev xs))"

subsection \<open>Heuristic scorers\<close>

definition skill_levels :: "string \<rightharpoonup> int" where
  "skill_levels = map_of [(''beginner'', 1), (''intermediate'', 2), (''advanced'', 3)]"

definition calculate_skill_match :: "AITool \<Rightarrow> UserContext \<Rightarrow> real" where
  "calculate_skill_match tool user_context =
     (let user_level = dict_get skill_levels (skill_level user_context) 1;
          tool_level = dict_get skill_levels (difficulty_level tool) 2
      in if tool_level = user_level + 1 then 1.0
         else if tool_level = user_level then 0.8
         else if tool_level = user_level - 1 then 0.6
         else 0.3)"

definition calculate_domain_relevance :: "AITool \<Rightarrow> UserContext \<Rightarrow> error + real" where
  "calculate_domain_relevance tool user_context =
     (let domain_keywords = split (lower (work_domain user_context));
          tool_text = lower (category tool @ '' '' @ join '' '' (use_cases tool));
          matches = length (filter (\<lambda>keyword. contains keyword tool_text) domain_keywords)
      in if domain_keywords \<noteq> []
         then (case truediv (real matches) (real (length domain_keywords)) of
                 Inl e \<Rightarrow> Inl e
               | Inr q \<Rightarrow> Inr (min q 1.0))
         else Inr 0.5)"

text \<open>
  The loop over \<^verbatim>\<open>tools_used\<close> in the source has the body \<^verbatim>\<open>pass\<close>; the method
  returns the constant.
\<close>

definition calculate_tool_compatibility :: "AITool \<Rightarrow> UserContext \<Rightarrow> real" where
  "calculate_tool_compatibility tool user_context = 0.7"

subsection \<open>Collaborators\<close>

text \<open>
  The external collaborators of the engine, fixed for one request:
  \<^item> \<open>encode\<close> is \<^verbatim>\<open>self.embedding_model.encode\<close>; \<open>None\<close> when the call raises;
  \<^item> \<open>cosine_similarity\<close> is \<^verbatim>\<open>cosine_similarity([u], [t])[0][0]\<close> of scikit-learn;
  \<^item> \<open>messages_create calls tool user_context score\<close> is the outcome of the
    \<^verbatim>\<open>try\<close> block of \<^verbatim>\<open>_generate_reasoning\<close>, whose prompt is built from exactly the
    last three arguments: the stripped text of the reply of
    \<^verbatim>\<open>self.client.messages.create\<close>, or \<open>None\<close> when anything in the block raises.
    \<open>calls\<close> lists the tools of the calls made before this one, so the reply may
    differ from call to call;
  \<^item> \<open>str_float\<close> is the formatting of a float inside an f-string.
\<close>

record 'v collaborators =
  encode :: "string \<Rightarrow> 'v option"
  cosine_similarity :: "'v \<Rightarrow> 'v \<Rightarrow> real"
  messages_create :: "AITool list \<Rightarrow> AITool \<Rightarrow> UserContext \<Rightarrow> real \<Rightarrow> string option"
  str_float :: "real \<Rightarrow> string"

text \<open>
  \<^verbatim>\<open>pattern_insights\<close> is a dictionary of which only the key \<^verbatim>\<open>skill_gaps\<close>, a list
  of strings, is read.
\<close>

type_synonym pattern_insights = "string \<rightharpoonup> string list"

subsection \<open>Relevance aggregation\<close>

definition create_user_profile ::
  "'v collaborators \<Rightarrow> UserContext \<Rightarrow> pattern_insights \<Rightarrow> string" where
  "create_user_profile env user_context insights =
     (let profile_parts =
            [''User skill level: '' @ skill_level user_context,
             ''Work domain: '' @ work_domain user_context,
             ''Current tools: '' @ join '', '' (tools_used user_context),
             ''Goals: '' @ join '', '' (goals user_context),
             ''Productivity score: '' @ str_float env (productivity_score user_context)];
          profile_parts =
            (case insights ''skill_gaps'' of
               Some (g # gs) \<Rightarrow> profile_parts @ [''Skill gaps: '' @ join '', '' (g # gs)]
             | _ \<Rightarrow> profile_parts)
      in join '' '' profile_parts)"

text \<open>The local \<^verbatim>\<open>tool_profile\<close> of \<^verbatim>\<open>_calculate_relevance_score\<close>.\<close>

definition tool_profile :: "AITool \<Rightarrow> string" where
  "tool_profile tool =
     name tool @ '' '' @ description tool @ '' '' @ join '' '' (capabilities tool)
       @ '' '' @ join '' '' (use_cases tool)"

definition calculate_relevance_score ::
  "'v collaborators \<Rightarrow> AITool \<Rightarrow> UserContext \<Rightarrow> pattern_insights \<Rightarrow> 'v \<Rightarrow> error + real" where
  "calculate_relevance_score env tool user_context insights user_embedding =
     (case encode env (tool_profile tool) of
        None \<Rightarrow> Inl EncodeError
      | Some tool_embedding \<Rightarrow>
          (let semantic_similarity = cosine_similarity env user_embedding tool_embedding;
               skill_match = calculate_skill_match tool user_context
           in case calculate_domain_relevance tool user_context of
                Inl e \<Rightarrow> Inl e
              | Inr domain_relevance \<Rightarrow>
                  (let tool_compatibility = calculate_tool_compatibility tool user_context;
                       score =
                         semantic_similarity * 0.3 + skill_match * 0.25
                           + domain_relevance * 0.25 + tool_compatibility * 0.2
                   in Inr (min score 1.0))))"

subsection \<open>Derived fields\<close>

text \<open>
  The state threaded through a request is the list of tools for which the
  text-generation collaborator has been called, in call order. The prompt is built from
  strings and a float only, so the call is always reached.
\<close>

definition generate_reasoning ::
  "'v collaborators \<Rightarrow> AITool list \<Rightarrow> AITool \<Rightarrow> UserContext \<Rightarrow> real \<Rightarrow> string \<times> AITool list" where
  "generate_reasoning env calls tool user_context score =
     (case messages_create env calls tool user_context score of
        Some text \<Rightarrow> (text, calls @ [tool])
      | None \<Rightarrow>
          (''Recommended based on relevance to your '' @ work_domain user_context
             @ '' work and '' @ skill_level user_context @ '' skill level.'',
           calls @ [tool]))"

definition skill_adjustment :: "string \<rightharpoonup> int" where
  "skill_adjustment = map_of [(''beginner'', 1), (''intermediate'', 0), (''advanced'', - 1)]"

definition calculate_implementation_complexity :: "AITool \<Rightarrow> UserContext \<Rightarrow> int" where
  "calculate_implementation_complexity tool user_context =
     (let base_complexity = integration_complexity tool;
          adjusted_complexity =
            base_complexity + dict_get skill_adjustment (skill_level user_context) 0
      in max 1 (min 5 adjusted_complexity))"

definition predict_impact :: "AITool \<Rightarrow> UserContext \<Rightarrow> string" where
  "predict_impact tool user_context =
     (if productivity_score user_context < 0.6 \<and> user_rating tool > 4.5 then ''High''
      else if productivity_score user_context < 0.8 then ''Medium''
      else ''Low'')"

definition base_time :: "string \<rightharpoonup> int" where
  "base_time = map_of [(''beginner'', 8), (''intermediate'', 4), (''advanced'', 2)]"

definition difficulty_multiplier :: "string \<rightharpoonup> real" where
  "difficulty_multiplier =
     map_of [(''beginner'', 1.0), (''intermediate'', 1.5), (''advanced'', 2.0)]"

definition estimate_learning_time :: "AITool \<Rightarrow> UserContext \<Rightarrow> int" where
  "estimate_learning_time tool user_context =
     (let base = dict_get base_time (skill_level user_context) 6;
          multiplier = dict_get difficulty_multiplier (difficulty_level tool) 1.5
      in int_of_float (real_of_int base * multiplier))"

subsection \<open>Ranking\<close>

text \<open>
  The \<^verbatim>\<open>for tool in available_tools\<close> loop of \<^verbatim>\<open>generate_recommendations\<close>:
  \<open>recs\<close> is the list \<^verbatim>\<open>recommendations\<close> built so far. An exception leaves the loop
  with the calls made until then.
\<close>

fun recommendations_loop ::
  "'v collaborators \<Rightarrow> UserContext \<Rightarrow> pattern_insights \<Rightarrow> 'v \<Rightarrow> AITool list
     \<Rightarrow> Recommendation list \<Rightarrow> AITool list \<Rightarrow> (error + Recommendation list) \<times> AITool list" where
  "recommendations_loop env user_context insights user_embedding [] recs calls =
     (Inr recs, calls)"
| "recommendations_loop env user_context insights user_embedding (tool # tools) recs calls =
     (case calculate_relevance_score env tool user_context insights user_embedding of
        Inl e \<Rightarrow> (Inl e, calls)
      | Inr score \<Rightarrow>
          (case generate_reasoning env calls tool user_context score of
             (text, calls') \<Rightarrow>
               (let complexity = calculate_implementation_complexity tool user_context;
                    impact = predict_impact tool user_context;
                    learning_time = estimate_learning_time tool user_context;
                    recommendation =
                      \<lparr>tool_id = id_AITool tool,
                       relevance_score = score,
                       confidence = min (score * 1.2) 1.0,
                       reasoning = text,
                       implementation_complexity = complexity,
                       expected_impact = impact,
                       learning_time_hours = learning_time\<rparr>
                in recommendations_loop env user_context insights user_embedding tools
                     (recs @ [recommendation]) calls')))"

text \<open>
  \<^verbatim>\<open>generate_recommendations\<close>: the whole body is inside \<^verbatim>\<open>try\<close>, and the handler
  returns the empty list. The second component is the list of text-generation calls
  after the request.
\<close>

definition generate_recommendations ::
  "'v collaborators \<Rightarrow> UserContext \<Rightarrow> pattern_insights \<Rightarrow> AITool list \<Rightarrow> AITool list
     \<Rightarrow> Recommendation list \<times> AITool list" where
  "generate_recommendations env user_context insights available_tools calls =
     (let user_profile = create_user_profile env user_context insights
      in case encode env user_profile of
           None \<Rightarrow> ([], calls)
         | Some user_embedding \<Rightarrow>
             (case recommendations_loop env user_context insights user_embedding
                     available_tools [] calls of
                (Inl e, calls') \<Rightarrow> ([], calls')
              | (Inr recommendations, calls') \<Rightarrow>
                  (take 10 (sort_reverse relevance_score recommendations), calls')))"

subsection \<open>The levels of the specification\<close>

text \<open>
  The specification's enumeration \<^verbatim>\<open>{beginner, intermediate, advanced}\<close> with its table
  \<^verbatim>\<open>level_rank = {beginner:1, intermediate:2, advanced:3}\<close>. The code has no such
  type: it compares the strings.
\<close>

datatype level = Beginner | Intermediate | Advanced

fun level_name :: "level \<Rightarrow> string" where
  "level_name Beginner = ''beginner''"
| "level_name Intermediate = ''intermediate''"
| "level_name Advanced = ''advanced''"

fun level_rank :: "level \<Rightarrow> int" where
  "level_rank Beginner = 1"
| "level_rank Intermediate = 2"
| "level_rank Advanced = 3"

subsection \<open>Example inputs\<close>

definition example_user :: UserContext where
  "example_user =
     \<lparr>user_id = ''9f86d081884c7d65'', skill_level = ''intermediate'', goals = [''ship faster''],
      work_domain = ''cloud security'', tools_used = [''git''], productivity_score = 0.5\<rparr>"

definition example_tool :: AITool where
  "example_tool =
     \<lparr>id_AITool = ''scanner'', name = ''Scanner'', category = ''security'',
      description = ''Finds misconfigurations'', capabilities = [''scanning''],
      pricing_model = ''free'', difficulty_level = ''advanced'', integration_complexity = 3,
      user_rating = 4.8, use_cases = [''cloud audits'']\<rparr>"

text \<open>
  Collaborators that always answer: every text has the same embedding, every pair of
  embeddings the similarity \<open>s\<close>, and text generation always fails.
\<close>

definition constant_env :: "real \<Rightarrow> unit collaborators" where
  "constant_env s =
     \<lparr>encode = (\<lambda>text. Some ()), cosine_similarity = (\<lambda>u t. s),
      messages_create = (\<lambda>calls tool user_context score. None),
      str_float = (\<lambda>x. ''0.5'')\<rparr>"

text \<open>The two sample tools of \<^verbatim>\<open>ToolDiscoveryAgent._get_curated_tools\<close>.\<close>

definition gpt4 :: AITool where
  "gpt4 =
     \<lparr>id_AITool = ''gpt4'', name = ''GPT-4'', category = ''writing'',
      description = ''Advanced language model for content creation'',
      capabilities = [''text_generation'', ''editing'', ''summarization''],
      pricing_model = ''usage_based'', difficulty_level = ''beginner'',
      integration_complexity = 2, user_rating = 4.8,
      use_cases = [''writing'', ''brainstorming'', ''analysis'']\<rparr>"

definition claude3 :: AITool where
  "claude3 =
     \<lparr>id_AITool = ''claude3'', name = ''Claude 3'', category = ''analysis'',
      description = ''Advanced AI for complex reasoning and analysis'',
      capabilities = [''reasoning'', ''analysis'', ''code_review''],
      pricing_model = ''usage_based'', difficulty_level = ''intermediate'',
      integration_complexity = 3, user_rating = 4.7,
      use_cases = [''research'', ''code_review'', ''strategic_planning'']\<rparr>"

definition beginner_user :: UserContext where
  "beginner_user =
     \<lparr>user_id = ''4b227777d4dd1fc6'', skill_level = ''beginner'', goals = [],
      work_domain = ''marketing'', tools_used = [], productivity_score = 0.9\<rparr>"

text \<open>A user whose skill level is none of the three known strings.\<close>

definition expert_user :: UserContext where
  "expert_user = example_user\<lparr>skill_level := ''expert''\<rparr>"

text \<open>A tool whose difficulty level is none of the three known strings.\<close>

definition expert_tool :: AITool where
  "expert_tool = example_tool\<lparr>difficulty_level := ''expert''\<rparr>"

text \<open>
  Collaborators whose embedding model raises on exactly one text, and whose text
  generation always answers.
\<close>

definition failing_env :: "string \<Rightarrow> unit collaborators" where
  "failing_env bad =
     \<lparr>encode = (\<lambda>text. if text = bad then None else Some ()),
      cosine_similarity = (\<lambda>u t. 0.5),
      messages_create = (\<lambda>calls tool user_context score. Some ''A good fit.''),
      str_float = (\<lambda>x. ''0.5'')\<rparr>"

text \<open>Collaborators that never fail: text generation always answers.\<close>

definition answering_env :: "unit collaborators" where
  "answering_env =
     \<lparr>encode = (\<lambda>text. Some ()),
      cosine_similarity = (\<lambda>u t. 0.5),
      messages_create = (\<lambda>calls tool user_context score. Some ''A good fit.''),
      str_float = (\<lambda>x. ''0.5'')\<rparr>"

subsection \<open>The domain relevance of the specification\<close>

text \<open>
  The words of the specification for the domain relevance, written without the
  functions of the embedding: the whitespace characters and the lowercase letters as
  tables, the tokens as the non-empty pieces between whitespace characters, and
  occurrence as equality with the text read at some offset from 0 to its length.
\<close>

definition spec_whitespace :: "char list" where
  "spec_whitespace =
     [CHR 0x09, CHR 0x0A, CHR 0x0B, CHR 0x0C, CHR 0x0D, CHR 0x1C, CHR 0x1D, CHR 0x1E,
      CHR 0x1F, CHR 0x20, CHR 0x85, CHR 0xA0]"

definition spec_lower_table :: "(char \<times> char) list" where
  "spec_lower_table =
     zip (''ABCDEFGHIJKLMNOPQRSTUVWXYZ''
            @ [CHR 0xC0, CHR 0xC1, CHR 0xC2, CHR 0xC3, CHR 0xC4, CHR 0xC5, CHR 0xC6, CHR 0xC7,
               CHR 0xC8, CHR 0xC9, CHR 0xCA, CHR 0xCB, CHR 0xCC, CHR 0xCD, CHR 0xCE, CHR 0xCF,
               CHR 0xD0, CHR 0xD1, CHR 0xD2, CHR 0xD3, CHR 0xD4, CHR 0xD5, CHR 0xD6,
               CHR 0xD8, CHR 0xD9, CHR 0xDA, CHR 0xDB, CHR 0xDC, CHR 0xDD, CHR 0xDE])
         (''abcdefghijklmnopqrstuvwxyz''
            @ [CHR 0xE0, CHR 0xE1, CHR 0xE2, CHR 0xE3, CHR 0xE4, CHR 0xE5, CHR 0xE6, CHR 0xE7,
               CHR 0xE8, CHR 0xE9, CHR 0xEA, CHR 0xEB, CHR 0xEC, CHR 0xED, CHR 0xEE, CHR 0xEF,
               CHR 0xF0, CHR 0xF1, CHR 0xF2, CHR 0xF3, CHR 0xF4, CHR 0xF5, CHR 0xF6,
               CHR 0xF8, CHR 0xF9, CHR 0xFA, CHR 0xFB, CHR 0xFC, CHR 0xFD, CHR 0xFE])"

definition spec_lowercase_char :: "char \<Rightarrow> char" where
  "spec_lowercase_char c = (case map_of spec_lower_table c of None \<Rightarrow> c | Some l \<Rightarrow> l)"

definition spec_lowercase :: "string \<Rightarrow> string" where
  "spec_lowercase s = map spec_lowercase_char s"

text \<open>The pieces of a string cut at every whitespace character, empty ones included.\<close>

primrec pieces :: "string \<Rightarrow> string list" where
  "pieces [] = [[]]"
| "pieces (c # cs) =
     (if c \<in> set spec_whitespace then [] # pieces cs
      else (case pieces cs of [] \<Rightarrow> [[c]] | p # ps \<Rightarrow> (c # p) # ps))"

definition spec_tokens :: "string \<Rightarrow> string list" where
  "spec_tokens s = filter (\<lambda>piece. piece \<noteq> []) (pieces s)"

definition occurs_in :: "string \<Rightarrow> string \<Rightarrow> bool" where
  "occurs_in token text =
     (\<exists>i\<in>set [0..<Suc (length text)]. take (length token) (drop i text) = token)"

definition spec_joined :: "string list \<Rightarrow> string" where
  "spec_joined xs =
     (case xs of [] \<Rightarrow> [] | x # rest \<Rightarrow> x @ concat (map (\<lambda>y. '' '' @ y) rest))"

definition spec_domain_relevance :: "AITool \<Rightarrow> UserContext \<Rightarrow> real" where
  "spec_domain_relevance tool user_context =
     (let tokens = spec_tokens (spec_lowercase (work_domain user_context));
          tool_text = spec_lowercase (category tool @ '' '' @ spec_joined (use_cases tool));
          matches = length (filter (\<lambda>token. occurs_in token tool_text) tokens)
      in if tokens = [] then 0.5
         else min (real matches / real (length tokens)) 1.0)"

text \<open>A user whose work domain is written with capitals and separated by a no-break space.\<close>

definition capitals_user :: UserContext where
  "capitals_user = example_user\<lparr>work_domain := ''Cloud'' @ [CHR 0xA0] @ ''SECURITY''\<rparr>"

text \<open>A tool whose category and use cases are written with capitals.\<close>

definition capitals_tool :: AITool where
  "capitals_tool = example_tool\<lparr>category := ''Security'', use_cases := [''Cloud Audits'']\<rparr>"

subsection \<open>One pass of the loop\<close>

text \<open>
  \<open>recommendation_for env user_context insights user_embedding calls tool r\<close>: the
  pass of the loop body for \<open>tool\<close>, entered when \<open>calls\<close> were the text-generation
  calls made so far, raises nothing and appends \<open>r\<close>.
\<close>

definition recommendation_for ::
  "'v collaborators \<Rightarrow> UserContext \<Rightarrow> pattern_insights \<Rightarrow> 'v \<Rightarrow> AITool list \<Rightarrow> AITool
     \<Rightarrow> Recommendation \<Rightarrow> bool" where
  "recommendation_for env user_context insights user_embedding calls tool r =
     (case calculate_relevance_score env tool user_context insights user_embedding of
        Inl e \<Rightarrow> False
      | Inr score \<Rightarrow>
          r = \<lparr>tool_id = id_AITool tool,
               relevance_score = score,
               confidence = min (score * 1.2) 1.0,
               reasoning = fst (generate_reasoning env calls tool user_context score),
               implementation_complexity = calculate_implementation_complexity tool user_context,
               expected_impact = predict_impact tool user_context,
               learning_time_hours = estimate_learning_time tool user_context\<rparr>)"

subsection \<open>Facts about the built-ins and the scorers\<close>

text \<open>\<open>contains\<close> is the substring test.\<close>

lemma contains_iff: "contains k t \<longleftrightarrow> (\<exists>ps ss. t = ps @ k @ ss)"
proof (induction t)
  case Nil
  then show ?case by simp
next
  case (Cons c cs)
  show ?case
  proof
    assume "contains k (c # cs)"
    then consider "prefix k (c # cs)" | "contains k cs" by auto
    then show "\<exists>ps ss. c # cs = ps @ k @ ss"
    proof cases
      case 1
      then obtain ss where "c # cs = k @ ss" unfolding prefix_def by blast
      then have "c # cs = [] @ k @ ss" by simp
      then show ?thesis by blast
    next
      case 2
      then obtain ps ss where "cs = ps @ k @ ss" using Cons.IH by blast
      then have "c # cs = (c # ps) @ k @ ss" by simp
      then show ?thesis by blast
    qed
  next
    assume "\<exists>ps ss. c # cs = ps @ k @ ss"
    then obtain ps ss where eq: "c # cs = ps @ k @ ss" by blast
    show "contains k (c # cs)"
    proof (cases ps)
      case Nil
      with eq have "c # cs = k @ ss" by simp
      then have "prefix k (c # cs)" unfolding prefix_def by blast
      then show ?thesis by simp
    next
      case (Cons p ps')
      with eq have "cs = ps' @ k @ ss" by simp
      then have "contains k cs" using Cons.IH by blast
      then show ?thesis by simp
    qed
  qed
qed

text \<open>
  The tokens of \<open>split\<close> are non-empty and free of whitespace, and together they
  are the characters of the string that are not whitespace, in order.
\<close>

lemma split_from_tokens:
  assumes "t \<in> set (split_from cur s)" and "\<forall>c\<in>set cur. \<not> isspace c"
  shows "t \<noteq> [] \<and> (\<forall>c\<in>set t. \<not> isspace c)"
  using assms
proof (induction s arbitrary: cur)
  case Nil
  then show ?case by (cases "cur = []") simp_all
next
  case (Cons c cs)
  show ?case
  proof (cases "isspace c")
    case True
    show ?thesis
    proof (cases "cur = []")
      case True
      with \<open>isspace c\<close> Cons.prems(1) have "t \<in> set (split_from [] cs)" by simp
      then show ?thesis using Cons.IH [of "[]"] by simp
    next
      case False
      with \<open>isspace c\<close> Cons.prems(1) have "t = cur \<or> t \<in> set (split_from [] cs)" by simp
      then show ?thesis
      proof
        assume "t = cur"
        with False Cons.prems(2) show ?thesis by simp
      next
        assume "t \<in> set (split_from [] cs)"
        then show ?thesis using Cons.IH [of "[]"] by simp
      qed
    qed
  next
    case False
    with Cons.prems(1) have "t \<in> set (split_from (cur @ [c]) cs)" by simp
    moreover have "\<forall>c'\<in>set (cur @ [c]). \<not> isspace c'"
      using False Cons.prems(2) by simp
    ultimately show ?thesis using Cons.IH [of "cur @ [c]"] by blast
  qed
qed

lemma split_tokens: "t \<in> set (split s) \<Longrightarrow> t \<noteq> [] \<and> (\<forall>c\<in>set t. \<not> isspace c)"
  unfolding split_def using split_from_tokens [of t "[]" s] by simp

lemma split_from_concat:
  "concat (split_from cur s) = cur @ filter (\<lambda>c. \<not> isspace c) s"
proof (induction s arbitrary: cur)
  case Nil
  then show ?case by simp
next
  case (Cons c cs)
  then show ?case by (cases "isspace c"; cases "cur = []") simp_all
qed

lemma concat_split: "concat (split s) = filter (\<lambda>c. \<not> isspace c) s"
  unfolding split_def using split_from_concat [of "[]" s] by simp

lemma skill_levels_name: "skill_levels (level_name l) = Some (level_rank l)"
  by (cases l) (simp_all add: skill_levels_def)

lemma skill_levels_unknown:
  "s \<notin> {''beginner'', ''intermediate'', ''advanced''} \<Longrightarrow> skill_levels s = None"
  by (simp add: skill_levels_def)

lemma calculate_skill_match_bounds:
  "3 / 10 \<le> calculate_skill_match tool user_context
     \<and> calculate_skill_match tool user_context \<le> 1"
  unfolding calculate_skill_match_def Let_def by simp

lemma calculate_domain_relevance_eq:
  "calculate_domain_relevance tool user_context =
     Inr (let domain_keywords = split (lower (work_domain user_context));
              tool_text = lower (category tool @ '' '' @ join '' '' (use_cases tool));
              matches = length (filter (\<lambda>keyword. contains keyword tool_text) domain_keywords)
          in if domain_keywords = [] then 0.5
             else min (real matches / real (length domain_keywords)) 1.0)"
  unfolding calculate_domain_relevance_def truediv_def Let_def
  by (cases "split (lower (work_domain user_context))") simp_all

lemma calculate_domain_relevance_bounds:
  "\<exists>d. calculate_domain_relevance tool user_context = Inr d \<and> 0 \<le> d \<and> d \<le> 1"
proof (cases "split (lower (work_domain user_context)) = []")
  case True
  then have "calculate_domain_relevance tool user_context = Inr (1 / 2)"
    unfolding calculate_domain_relevance_eq Let_def by simp
  moreover have "(0::real) \<le> 1 / 2 \<and> (1::real) / 2 \<le> 1" by simp
  ultimately show ?thesis by blast
next
  case False
  then show ?thesis
    unfolding calculate_domain_relevance_eq Let_def by simp
qed

text \<open>
  The built-ins of the embedding agree with the tables and the declarative forms of
  the specification on every character and every string.
\<close>

lemma isspace_spec_all: "\<forall>c. isspace c = (c \<in> set spec_whitespace)"
  by code_simp

lemma isspace_spec: "isspace c = (c \<in> set spec_whitespace)"
  using isspace_spec_all by blast

lemma lower_char_spec_all: "\<forall>c. lower_char c = spec_lowercase_char c"
  by code_simp

lemma lower_spec: "lower s = spec_lowercase s"
  unfolding lower_def spec_lowercase_def using lower_char_spec_all by simp

lemma pieces_not_Nil: "pieces s \<noteq> []"
  by (induction s) (simp_all split: list.split)

lemma split_from_pieces:
  "split_from cur s
     = filter (\<lambda>piece. piece \<noteq> [])
         (case pieces s of [] \<Rightarrow> [cur] | p # ps \<Rightarrow> (cur @ p) # ps)"
proof (induction s arbitrary: cur)
  case Nil
  then show ?case by simp
next
  case (Cons c cs)
  obtain p ps where p: "pieces cs = p # ps"
    using pieces_not_Nil [of cs] by (cases "pieces cs") simp_all
  have empty: "split_from [] cs = filter (\<lambda>piece. piece \<noteq> []) (pieces cs)"
    using Cons.IH [of "[]"] p by simp
  show ?case
  proof (cases "isspace c")
    case True
    then have "c \<in> set spec_whitespace" using isspace_spec by simp
    then show ?thesis using True empty by simp
  next
    case False
    then have "c \<notin> set spec_whitespace" using isspace_spec by simp
    then show ?thesis using False Cons.IH [of "cur @ [c]"] p by simp
  qed
qed

lemma split_spec: "split s = spec_tokens s"
proof -
  obtain p ps where "pieces s = p # ps"
    using pieces_not_Nil [of s] by (cases "pieces s") simp_all
  then show ?thesis
    unfolding split_def spec_tokens_def using split_from_pieces [of "[]" s] by simp
qed

lemma contains_spec: "contains k t = occurs_in k t"
proof
  assume "contains k t"
  then obtain ps ss where t: "t = ps @ k @ ss"
    using contains_iff by blast
  then have "length ps \<in> set [0..<Suc (length t)]"
    and "take (length k) (drop (length ps) t) = k"
    by simp_all
  then show "occurs_in k t" unfolding occurs_in_def by blast
next
  assume "occurs_in k t"
  then obtain i where i: "take (length k) (drop i t) = k"
    unfolding occurs_in_def by blast
  have "t = take i t @ drop i t" by simp
  also have "drop i t = take (length k) (drop i t) @ drop (length k) (drop i t)"
    by (rule append_take_drop_id [symmetric])
  finally have "t = take i t @ k @ drop (length k) (drop i t)" using i by simp
  then show "contains k t" using contains_iff by blast
qed

lemma join_concat:
  "join sep xs = (case xs of [] \<Rightarrow> [] | x # rest \<Rightarrow> x @ concat (map (\<lambda>y. sep @ y) rest))"
  by (induction sep xs rule: join.induct) simp_all

lemma join_spec: "join '' '' xs = spec_joined xs"
  unfolding spec_joined_def by (rule join_concat)

lemma calculate_domain_relevance_spec:
  "calculate_domain_relevance tool user_context
     = Inr (spec_domain_relevance tool user_context)"
  unfolding calculate_domain_relevance_eq spec_domain_relevance_def
  by (simp only: lower_spec split_spec contains_spec join_spec)

lemma calculate_relevance_score_Inr:
  assumes "encode env (tool_profile tool) = Some tool_embedding"
  shows "\<exists>d. calculate_domain_relevance tool user_context = Inr d \<and> 0 \<le> d \<and> d \<le> 1 \<and>
           calculate_relevance_score env tool user_context insights user_embedding =
             Inr (min (cosine_similarity env user_embedding tool_embedding * 0.3
                        + calculate_skill_match tool user_context * 0.25 + d * 0.25
                        + calculate_tool_compatibility tool user_context * 0.2) 1.0)"
proof -
  obtain d where d: "calculate_domain_relevance tool user_context = Inr d" "0 \<le> d" "d \<le> 1"
    using calculate_domain_relevance_bounds by blast
  have "calculate_relevance_score env tool user_context insights user_embedding =
          Inr (min (cosine_similarity env user_embedding tool_embedding * 0.3
                     + calculate_skill_match tool user_context * 0.25 + d * 0.25
                     + calculate_tool_compatibility tool user_context * 0.2) 1.0)"
    unfolding calculate_relevance_score_def Let_def by (simp add: assms d(1))
  with d show ?thesis by blast
qed

lemma calculate_relevance_score_Inl:
  "encode env (tool_profile tool) = None \<Longrightarrow>
     calculate_relevance_score env tool user_context insights user_embedding = Inl EncodeError"
  unfolding calculate_relevance_score_def by simp

subsection \<open>Skill match\<close>

text \<open>
  C6. For a user skill level and a tool difficulty level among beginner, intermediate
  and advanced, with ranks 1, 2, 3 and \<open>diff\<close> the tool's rank minus the user's rank,
  the skill-match score is 1.0 when \<open>diff = 1\<close>, 0.8 when \<open>diff = 0\<close>, 0.6 when
  \<open>diff = -1\<close>, and 0.3 otherwise.
\<close>

theorem skill_match_table:
  assumes "skill_level user_context = level_name lu"
      and "difficulty_level tool = level_name lt"
  shows "calculate_skill_match tool user_context =
           (let diff = level_rank lt - level_rank lu
            in if diff = 1 then 1.0 else if diff = 0 then 0.8
               else if diff = - 1 then 0.6 else 0.3)"
proof -
  have "dict_get skill_levels (skill_level user_context) 1 = level_rank lu"
    by (simp add: dict_get_def assms skill_levels_name)
  moreover have "dict_get skill_levels (difficulty_level tool) 2 = level_rank lt"
    by (simp add: dict_get_def assms skill_levels_name)
  ultimately show ?thesis
    unfolding calculate_skill_match_def Let_def
    by (cases lu; cases lt) simp_all
qed

theorem skill_match_table_witness:
  "skill_level example_user = level_name Intermediate
     \<and> difficulty_level example_tool = level_name Advanced
     \<and> difficulty_level claude3 = level_name Intermediate
     \<and> difficulty_level gpt4 = level_name Beginner
     \<and> calculate_skill_match example_tool example_user = 1.0
     \<and> calculate_skill_match claude3 example_user = 0.8
     \<and> calculate_skill_match gpt4 example_user = 0.6"
proof -
  have u: "skill_level example_user = level_name Intermediate"
    by (simp add: example_user_def)
  have a: "difficulty_level example_tool = level_name Advanced"
    by (simp add: example_tool_def)
  have i: "difficulty_level claude3 = level_name Intermediate"
    by (simp add: claude3_def)
  have b: "difficulty_level gpt4 = level_name Beginner"
    by (simp add: gpt4_def)
  show ?thesis
    using u a i b skill_match_table [OF u a] skill_match_table [OF u i]
      skill_match_table [OF u b]
    by simp
qed

subsection \<open>Domain relevance\<close>

text \<open>
  C7. The domain-relevance score is the number of lowercase whitespace-delimited tokens
  of \<open>work_domain\<close> that occur in the lowercased text made of the tool's category, a
  space and the space-joined use cases, divided by the number of tokens and capped at
  1.0; when \<open>work_domain\<close> has no token, as the empty string has none, the score is
  0.5. The result is never an exception, in particular never a division by zero. The
  right-hand side is the specification's \<open>spec_domain_relevance\<close>, which uses none of
  the functions of the embedding.
\<close>

theorem domain_relevance_keyword_overlap:
  "calculate_domain_relevance tool user_context
     = Inr (spec_domain_relevance tool user_context)
   \<and> spec_domain_relevance tool user_context
       = (let tokens = spec_tokens (spec_lowercase (work_domain user_context));
              tool_text = spec_lowercase (category tool @ '' '' @ spec_joined (use_cases tool));
              matches = length (filter (\<lambda>token. occurs_in token tool_text) tokens)
          in if tokens = [] then 0.5
             else min (real matches / real (length tokens)) 1.0)
   \<and> (spec_tokens (spec_lowercase (work_domain user_context)) = []
        \<longrightarrow> calculate_domain_relevance tool user_context = Inr 0.5)
   \<and> calculate_domain_relevance tool (user_context\<lparr>work_domain := []\<rparr>) = Inr 0.5"
proof -
  have 1: "calculate_domain_relevance tool user_context
             = Inr (spec_domain_relevance tool user_context)"
    by (rule calculate_domain_relevance_spec)
  have 2: "spec_domain_relevance tool user_context
       = (let tokens = spec_tokens (spec_lowercase (work_domain user_context));
              tool_text = spec_lowercase (category tool @ '' '' @ spec_joined (use_cases tool));
              matches = length (filter (\<lambda>token. occurs_in token tool_text) tokens)
          in if tokens = [] then 0.5
             else min (real matches / real (length tokens)) 1.0)"
    by (rule spec_domain_relevance_def)
  have 3: "spec_tokens (spec_lowercase (work_domain user_context)) = []
             \<longrightarrow> calculate_domain_relevance tool user_context = Inr 0.5"
    unfolding 1 2 by simp
  have "spec_tokens (spec_lowercase []) = []"
    by (simp add: spec_tokens_def spec_lowercase_def)
  then have 4: "calculate_domain_relevance tool (user_context\<lparr>work_domain := []\<rparr>) = Inr 0.5"
    unfolding calculate_domain_relevance_spec spec_domain_relevance_def by simp
  from 1 2 3 4 show ?thesis by blast
qed

theorem domain_relevance_keyword_overlap_witness:
  "work_domain capitals_user = ''Cloud'' @ [CHR 0xA0] @ ''SECURITY''
   \<and> spec_tokens (spec_lowercase (work_domain capitals_user)) = [''cloud'', ''security'']
   \<and> spec_lowercase (category capitals_tool @ '' '' @ spec_joined (use_cases capitals_tool))
       = ''security cloud audits''
   \<and> spec_domain_relevance capitals_tool capitals_user = 1.0
   \<and> calculate_domain_relevance capitals_tool capitals_user = Inr 1.0
   \<and> calculate_domain_relevance example_tool example_user = Inr 1.0
   \<and> calculate_domain_relevance example_tool
         (example_user\<lparr>work_domain := ''cloud data security''\<rparr>) = Inr (2 / 3)
   \<and> calculate_domain_relevance example_tool beginner_user = Inr 0
   \<and> spec_tokens (spec_lowercase [CHR 0xA0, CHR 0x09]) = []
   \<and> calculate_domain_relevance example_tool
         (example_user\<lparr>work_domain := [CHR 0xA0, CHR 0x09]\<rparr>) = Inr 0.5
   \<and> calculate_domain_relevance example_tool (example_user\<lparr>work_domain := []\<rparr>) = Inr 0.5"
proof -
  have w: "work_domain capitals_user = ''Cloud'' @ [CHR 0xA0] @ ''SECURITY''"
    by (simp add: capitals_user_def)
  have t: "spec_tokens (spec_lowercase (work_domain capitals_user)) = [''cloud'', ''security'']"
    by code_simp
  have x: "spec_lowercase (category capitals_tool @ '' '' @ spec_joined (use_cases capitals_tool))
             = ''security cloud audits''"
    by code_simp
  have s1: "spec_domain_relevance capitals_tool capitals_user = 1.0"
    by code_simp
  have s2: "spec_domain_relevance example_tool example_user = 1.0"
    by code_simp
  have s3: "spec_domain_relevance example_tool
              (example_user\<lparr>work_domain := ''cloud data security''\<rparr>) = 2 / 3"
    by code_simp
  have s4: "spec_domain_relevance example_tool beginner_user = 0"
    by code_simp
  have e: "spec_tokens (spec_lowercase [CHR 0xA0, CHR 0x09]) = []"
    by code_simp
  have e': "spec_tokens (spec_lowercase
              (work_domain (example_user\<lparr>work_domain := [CHR 0xA0, CHR 0x09]\<rparr>))) = []"
    using e by simp
  show ?thesis
    using domain_relevance_keyword_overlap [of capitals_tool capitals_user]
      domain_relevance_keyword_overlap [of example_tool example_user]
      domain_relevance_keyword_overlap
        [of example_tool "example_user\<lparr>work_domain := ''cloud data security''\<rparr>"]
      domain_relevance_keyword_overlap [of example_tool beginner_user]
      domain_relevance_keyword_overlap
        [of example_tool "example_user\<lparr>work_domain := [CHR 0xA0, CHR 0x09]\<rparr>"]
      w t x s1 s2 s3 s4 e e'
    by simp
qed

subsection \<open>Relevance aggregation\<close>

text \<open>
  C1. With the embedding collaborator's outputs fixed, the relevance score of a tool is
  \<open>0.30 * semantic_similarity + 0.25 * skill_match + 0.25 * domain_relevance
  + 0.20 * tool_compatibility\<close>, capped above by \<open>min\<close> with 1.0, where the four terms are
  the cosine similarity of the two embeddings and the values of the three heuristic
  scorers on the same inputs, and the four weights sum to 1.0.
\<close>

theorem relevance_score_weighted_sum:
  assumes "encode env (tool_profile tool) = Some tool_embedding"
  shows "\<exists>domain_relevance.
           calculate_domain_relevance tool user_context = Inr domain_relevance \<and>
           calculate_relevance_score env tool user_context insights user_embedding =
             Inr (min (0.30 * cosine_similarity env user_embedding tool_embedding
                        + 0.25 * calculate_skill_match tool user_context
                        + 0.25 * domain_relevance
                        + 0.20 * calculate_tool_compatibility tool user_context) 1.0) \<and>
           0.30 + 0.25 + 0.25 + 0.20 = (1.0 :: real)"
proof -
  obtain d where d: "calculate_domain_relevance tool user_context = Inr d"
    and r: "calculate_relevance_score env tool user_context insights user_embedding =
              Inr (min (cosine_similarity env user_embedding tool_embedding * 0.3
                         + calculate_skill_match tool user_context * 0.25 + d * 0.25
                         + calculate_tool_compatibility tool user_context * 0.2) 1.0)"
    using calculate_relevance_score_Inr [OF assms] by blast
  have "calculate_relevance_score env tool user_context insights user_embedding =
          Inr (min (0.30 * cosine_similarity env user_embedding tool_embedding
                     + 0.25 * calculate_skill_match tool user_context
                     + 0.25 * d
                     + 0.20 * calculate_tool_compatibility tool user_context) 1.0)"
    unfolding r by (simp add: mult.commute)
  moreover have "0.30 + 0.25 + 0.25 + 0.20 = (1.0 :: real)" by simp
  ultimately show ?thesis using d by blast
qed

theorem relevance_score_weighted_sum_witness:
  "encode (constant_env 0.5) (tool_profile example_tool) = Some ()
     \<and> calculate_skill_match example_tool example_user = 1.0
     \<and> calculate_domain_relevance example_tool example_user = Inr 1.0
     \<and> calculate_tool_compatibility example_tool example_user = 0.7
     \<and> calculate_relevance_score (constant_env 0.5) example_tool example_user Map.empty ()
         = Inr 0.79"
proof -
  have e: "encode (constant_env 0.5) (tool_profile example_tool) = Some ()"
    by (simp add: constant_env_def)
  have s: "calculate_skill_match example_tool example_user = 1.0"
    by (simp add: calculate_skill_match_def example_tool_def example_user_def dict_get_def
        skill_levels_def)
  have d: "calculate_domain_relevance example_tool example_user = Inr 1.0"
    by code_simp
  have c: "calculate_tool_compatibility example_tool example_user = 0.7"
    by (simp add: calculate_tool_compatibility_def)
  have k: "cosine_similarity (constant_env 0.5) () () = 0.5"
    by (simp add: constant_env_def)
  show ?thesis
    using relevance_score_weighted_sum [OF e, of example_user Map.empty "()"] e
    unfolding s d c k by simp
qed

subsection \<open>Unknown levels\<close>

lemma base_time_name:
  "base_time (level_name l) = Some (case l of Beginner \<Rightarrow> 8 | Intermediate \<Rightarrow> 4 | Advanced \<Rightarrow> 2)"
  by (cases l) (simp_all add: base_time_def)

text \<open>
  C10. For a tool whose difficulty level is none of beginner, intermediate and advanced,
  scoring still succeeds and the tool is treated as intermediate: the skill-match
  computation uses rank 2 for the tool and the learning-time estimate uses the
  multiplier 1.5. So the skill match is the table of C6 at \<open>diff = 2 - rank of the
  user\<close>, and the learning time is the user's base time multiplied by 1.5 and
  truncated: for a beginner 1.0 and 12 hours, for an intermediate user 0.8 and 6 hours,
  for an advanced user 0.6 and 3 hours.
\<close>

theorem unknown_difficulty_level_defaults:
  assumes "difficulty_level tool \<notin> {''beginner'', ''intermediate'', ''advanced''}"
  shows "calculate_skill_match tool user_context
         = (let diff = 2 - dict_get skill_levels (skill_level user_context) 1
            in if diff = 1 then 1.0 else if diff = 0 then 0.8
               else if diff = - 1 then 0.6 else 0.3)
     \<and> estimate_learning_time tool user_context
         = int_of_float (real_of_int (dict_get base_time (skill_level user_context) 6) * 1.5)
     \<and> (skill_level user_context = level_name lu \<longrightarrow>
          calculate_skill_match tool user_context
            = (case lu of Beginner \<Rightarrow> 1.0 | Intermediate \<Rightarrow> 0.8 | Advanced \<Rightarrow> 0.6)
          \<and> estimate_learning_time tool user_context
              = (case lu of Beginner \<Rightarrow> 12 | Intermediate \<Rightarrow> 6 | Advanced \<Rightarrow> 3))
     \<and> dict_get skill_levels (difficulty_level tool) 2 = 2
     \<and> calculate_skill_match tool user_context
         = calculate_skill_match (tool\<lparr>difficulty_level := ''intermediate''\<rparr>) user_context
     \<and> dict_get difficulty_multiplier (difficulty_level tool) 1.5 = 1.5
     \<and> estimate_learning_time tool user_context
         = estimate_learning_time (tool\<lparr>difficulty_level := ''intermediate''\<rparr>) user_context
     \<and> (encode env (tool_profile tool) \<noteq> None \<longrightarrow>
          (\<exists>score. calculate_relevance_score env tool user_context insights user_embedding
                     = Inr score))"
proof -
  have rank: "dict_get skill_levels (difficulty_level tool) 2 = 2"
    using assms by (simp add: dict_get_def skill_levels_def)
  have rank': "dict_get skill_levels ''intermediate'' 2 = 2"
    by (simp add: dict_get_def skill_levels_def)
  have mult: "dict_get difficulty_multiplier (difficulty_level tool) 1.5 = 1.5"
    using assms by (simp add: dict_get_def difficulty_multiplier_def)
  have mult': "dict_get difficulty_multiplier ''intermediate'' 1.5 = 1.5"
    by (simp add: dict_get_def difficulty_multiplier_def)
  have pin_sm: "calculate_skill_match tool user_context
         = (let diff = 2 - dict_get skill_levels (skill_level user_context) 1
            in if diff = 1 then 1.0 else if diff = 0 then 0.8
               else if diff = - 1 then 0.6 else 0.3)"
    unfolding calculate_skill_match_def Let_def rank by auto
  have pin_lt: "estimate_learning_time tool user_context
         = int_of_float (real_of_int (dict_get base_time (skill_level user_context) 6) * 1.5)"
    by (simp only: estimate_learning_time_def Let_def mult)
  have named: "skill_level user_context = level_name lu \<longrightarrow>
          calculate_skill_match tool user_context
            = (case lu of Beginner \<Rightarrow> 1.0 | Intermediate \<Rightarrow> 0.8 | Advanced \<Rightarrow> 0.6)
          \<and> estimate_learning_time tool user_context
              = (case lu of Beginner \<Rightarrow> 12 | Intermediate \<Rightarrow> 6 | Advanced \<Rightarrow> 3)"
  proof
    assume n: "skill_level user_context = level_name lu"
    have u: "dict_get skill_levels (skill_level user_context) 1 = level_rank lu"
      by (simp add: n dict_get_def skill_levels_name)
    have b: "dict_get base_time (skill_level user_context) 6
               = (case lu of Beginner \<Rightarrow> 8 | Intermediate \<Rightarrow> 4 | Advanced \<Rightarrow> 2)"
      by (simp add: n dict_get_def base_time_name)
    have 1: "calculate_skill_match tool user_context
               = (case lu of Beginner \<Rightarrow> 1.0 | Intermediate \<Rightarrow> 0.8 | Advanced \<Rightarrow> 0.6)"
      unfolding pin_sm u by (cases lu) simp_all
    have 2: "estimate_learning_time tool user_context
               = (case lu of Beginner \<Rightarrow> 12 | Intermediate \<Rightarrow> 6 | Advanced \<Rightarrow> 3)"
      unfolding pin_lt b by (cases lu) (simp_all add: int_of_float_def)
    from 1 2 show "calculate_skill_match tool user_context
            = (case lu of Beginner \<Rightarrow> 1.0 | Intermediate \<Rightarrow> 0.8 | Advanced \<Rightarrow> 0.6)
          \<and> estimate_learning_time tool user_context
              = (case lu of Beginner \<Rightarrow> 12 | Intermediate \<Rightarrow> 6 | Advanced \<Rightarrow> 3)"
      by blast
  qed
  have sm: "calculate_skill_match tool user_context
              = calculate_skill_match (tool\<lparr>difficulty_level := ''intermediate''\<rparr>) user_context"
    unfolding calculate_skill_match_def by (simp add: rank rank')
  have lt: "estimate_learning_time tool user_context
              = estimate_learning_time (tool\<lparr>difficulty_level := ''intermediate''\<rparr>) user_context"
  proof -
    have "dict_get difficulty_multiplier (difficulty_level tool) 1.5
            = dict_get difficulty_multiplier ''intermediate'' 1.5"
      by (simp only: mult mult')
    then show ?thesis by (simp add: estimate_learning_time_def)
  qed
  have ok: "encode env (tool_profile tool) \<noteq> None \<longrightarrow>
          (\<exists>score. calculate_relevance_score env tool user_context insights user_embedding
                     = Inr score)"
    using calculate_relevance_score_Inr by fastforce
  from pin_sm pin_lt named rank sm mult lt ok show ?thesis by blast
qed

theorem unknown_difficulty_level_defaults_witness:
  "difficulty_level expert_tool \<notin> {''beginner'', ''intermediate'', ''advanced''}
     \<and> skill_level beginner_user = level_name Beginner
     \<and> calculate_skill_match expert_tool beginner_user = 1.0
     \<and> estimate_learning_time expert_tool beginner_user = 12
     \<and> skill_level example_user = level_name Intermediate
     \<and> calculate_skill_match expert_tool example_user = 0.8
     \<and> estimate_learning_time expert_tool example_user = 6
     \<and> encode (constant_env 0.5) (tool_profile expert_tool) \<noteq> None
     \<and> (\<exists>score. calculate_relevance_score (constant_env 0.5) expert_tool example_user
                   Map.empty () = Inr score)"
proof -
  have h: "difficulty_level expert_tool \<notin> {''beginner'', ''intermediate'', ''advanced''}"
    by (simp add: expert_tool_def)
  have e: "encode (constant_env 0.5) (tool_profile expert_tool) \<noteq> None"
    by (simp add: constant_env_def)
  have b: "skill_level beginner_user = level_name Beginner"
    by (simp add: beginner_user_def)
  have i: "skill_level example_user = level_name Intermediate"
    by (simp add: example_user_def)
  show ?thesis
    using unknown_difficulty_level_defaults
      [OF h, of beginner_user Beginner "constant_env 0.5" Map.empty "()"]
      unknown_difficulty_level_defaults
      [OF h, of example_user Intermediate "constant_env 0.5" Map.empty "()"] h e b i
    by simp
qed

text \<open>
  C9 as the specification states it: a user skill level that is none of the three known
  strings is coerced to beginner by every consumer, so that the complexity adjustment
  is +1 and the learning-time base 8 hours. The code differs: for the user
  \<open>expert_user\<close> the complexity of a tool of integration complexity 3 is 3, where a
  beginner gets 4, and the learning time of an advanced tool is 12 hours, where a
  beginner gets 16.
\<close>

theorem unknown_skill_level_counterexample:
  "skill_level expert_user \<notin> {''beginner'', ''intermediate'', ''advanced''}
     \<and> calculate_implementation_complexity example_tool expert_user = 3
     \<and> calculate_implementation_complexity example_tool
           (expert_user\<lparr>skill_level := ''beginner''\<rparr>) = 4
     \<and> estimate_learning_time example_tool expert_user = 12
     \<and> estimate_learning_time example_tool (expert_user\<lparr>skill_level := ''beginner''\<rparr>) = 16"
  by (simp add: expert_user_def example_user_def example_tool_def
      calculate_implementation_complexity_def skill_adjustment_def dict_get_def
      estimate_learning_time_def base_time_def difficulty_multiplier_def int_of_float_def)

text \<open>
  C9, amended. For a user whose skill level is none of beginner, intermediate and
  advanced no consumer rejects the input, and each applies its own default: the
  skill-match scorer uses rank 1 (beginner), the implementation-complexity adjustment
  is 0 (that of intermediate), and the learning-time base is 6 hours (that of no
  level); scoring returns a value whenever the tool's embedding does.
\<close>

theorem unknown_skill_level_defaults:
  assumes "skill_level user_context \<notin> {''beginner'', ''intermediate'', ''advanced''}"
  shows "dict_get skill_levels (skill_level user_context) 1 = 1
     \<and> calculate_skill_match tool user_context
         = calculate_skill_match tool (user_context\<lparr>skill_level := ''beginner''\<rparr>)
     \<and> calculate_implementation_complexity tool user_context
         = max 1 (min 5 (integration_complexity tool + 0))
     \<and> calculate_implementation_complexity tool user_context
         = calculate_implementation_complexity tool
             (user_context\<lparr>skill_level := ''intermediate''\<rparr>)
     \<and> estimate_learning_time tool user_context
         = int_of_float (6 * dict_get difficulty_multiplier (difficulty_level tool) 1.5)
     \<and> (encode env (tool_profile tool) \<noteq> None \<longrightarrow>
          (\<exists>score. calculate_relevance_score env tool user_context insights user_embedding
                     = Inr score))"
proof -
  have rank: "dict_get skill_levels (skill_level user_context) 1 = 1"
    using assms by (simp add: dict_get_def skill_levels_def)
  have rank': "dict_get skill_levels ''beginner'' 1 = 1"
    by (simp add: dict_get_def skill_levels_def)
  have sm: "calculate_skill_match tool user_context
              = calculate_skill_match tool (user_context\<lparr>skill_level := ''beginner''\<rparr>)"
    unfolding calculate_skill_match_def by (simp add: rank rank')
  have adj: "dict_get skill_adjustment (skill_level user_context) 0 = 0"
    using assms by (simp add: dict_get_def skill_adjustment_def)
  have adj': "dict_get skill_adjustment ''intermediate'' 0 = 0"
    by (simp add: dict_get_def skill_adjustment_def)
  have c0: "calculate_implementation_complexity tool user_context
              = max 1 (min 5 (integration_complexity tool + 0))"
    unfolding calculate_implementation_complexity_def by (simp add: adj)
  have ci: "calculate_implementation_complexity tool user_context
              = calculate_implementation_complexity tool
                  (user_context\<lparr>skill_level := ''intermediate''\<rparr>)"
    unfolding calculate_implementation_complexity_def by (simp add: adj adj')
  have base: "dict_get base_time (skill_level user_context) 6 = 6"
    using assms by (simp add: dict_get_def base_time_def)
  have lt: "estimate_learning_time tool user_context
              = int_of_float (6 * dict_get difficulty_multiplier (difficulty_level tool) 1.5)"
    unfolding estimate_learning_time_def by (simp add: base)
  have ok: "encode env (tool_profile tool) \<noteq> None \<longrightarrow>
          (\<exists>score. calculate_relevance_score env tool user_context insights user_embedding
                     = Inr score)"
    using calculate_relevance_score_Inr by fastforce
  from rank sm c0 ci lt ok show ?thesis by blast
qed

theorem unknown_skill_level_defaults_witness:
  "skill_level expert_user \<notin> {''beginner'', ''intermediate'', ''advanced''}
     \<and> calculate_skill_match example_tool expert_user = 0.3
     \<and> calculate_implementation_complexity example_tool expert_user = 3
     \<and> estimate_learning_time example_tool expert_user = 12
     \<and> encode (constant_env 0.5) (tool_profile example_tool) \<noteq> None
     \<and> (\<exists>score. calculate_relevance_score (constant_env 0.5) example_tool expert_user
                   Map.empty () = Inr score)"
proof -
  have h: "skill_level expert_user \<notin> {''beginner'', ''intermediate'', ''advanced''}"
    by (simp add: expert_user_def)
  have e: "encode (constant_env 0.5) (tool_profile example_tool) \<noteq> None"
    by (simp add: constant_env_def)
  have s: "calculate_skill_match example_tool (expert_user\<lparr>skill_level := ''beginner''\<rparr>)
             = 0.3"
    by (simp add: calculate_skill_match_def example_tool_def dict_get_def skill_levels_def)
  have i: "integration_complexity example_tool = 3"
    by (simp add: example_tool_def)
  have m: "int_of_float
             (6 * dict_get difficulty_multiplier (difficulty_level example_tool) 1.5) = 12"
    by (simp add: example_tool_def dict_get_def difficulty_multiplier_def int_of_float_def)
  show ?thesis
    using unknown_skill_level_defaults
      [OF h, of example_tool "constant_env 0.5" Map.empty "()"] h e s i m
    by simp
qed

subsection \<open>Explanations\<close>

lemma generate_reasoning_calls:
  "snd (generate_reasoning env calls tool user_context score) = calls @ [tool]"
  unfolding generate_reasoning_def by (simp split: option.split)

lemma generate_reasoning_fallback:
  "messages_create env calls tool user_context score = None \<Longrightarrow>
     fst (generate_reasoning env calls tool user_context score) =
       ''Recommended based on relevance to your '' @ work_domain user_context
         @ '' work and '' @ skill_level user_context @ '' skill level.''"
  unfolding generate_reasoning_def by simp

subsection \<open>The scoring loop\<close>

lemma recommendations_loop_failure:
  "\<exists>t\<in>set tools. encode env (tool_profile t) = None \<Longrightarrow>
     fst (recommendations_loop env user_context insights user_embedding tools recs calls)
       = Inl EncodeError"
proof (induction tools arbitrary: recs calls)
  case Nil
  then show ?case by simp
next
  case (Cons tool tools)
  show ?case
  proof (cases "encode env (tool_profile tool)")
    case None
    then show ?thesis by (simp add: calculate_relevance_score_Inl)
  next
    case (Some tool_embedding)
    then have rest: "\<exists>t\<in>set tools. encode env (tool_profile t) = None"
      using Cons.prems by auto
    obtain score where
      "calculate_relevance_score env tool user_context insights user_embedding = Inr score"
      using calculate_relevance_score_Inr [OF Some] by blast
    then show ?thesis
      using Cons.IH [OF rest] by (simp add: Let_def split: prod.split)
  qed
qed

lemma recommendations_loop_calls:
  "snd (recommendations_loop env user_context insights user_embedding tools recs calls)
     = calls @ takeWhile (\<lambda>t. encode env (tool_profile t) \<noteq> None) tools"
proof (induction tools arbitrary: recs calls)
  case Nil
  then show ?case by simp
next
  case (Cons tool tools)
  show ?case
  proof (cases "encode env (tool_profile tool)")
    case None
    then show ?thesis by (simp add: calculate_relevance_score_Inl)
  next
    case (Some tool_embedding)
    obtain score where score:
      "calculate_relevance_score env tool user_context insights user_embedding = Inr score"
      using calculate_relevance_score_Inr [OF Some] by blast
    obtain reply calls' where g:
      "generate_reasoning env calls tool user_context score = (reply, calls')"
      by (cases "generate_reasoning env calls tool user_context score")
    then have calls': "calls' = calls @ [tool]"
      using generate_reasoning_calls [of env calls tool user_context score] by simp
    show ?thesis
      using Some score g calls' Cons.IH by (simp add: Let_def)
  qed
qed

lemma recommendations_loop_success:
  "\<forall>t\<in>set tools. encode env (tool_profile t) \<noteq> None \<Longrightarrow>
     \<exists>new. recommendations_loop env user_context insights user_embedding tools recs calls
             = (Inr (recs @ new), calls @ tools)
           \<and> length new = length tools
           \<and> (\<forall>i<length tools.
                 recommendation_for env user_context insights user_embedding
                   (calls @ take i tools) (tools ! i) (new ! i))"
proof (induction tools arbitrary: recs calls)
  case Nil
  then show ?case by simp
next
  case (Cons tool tools)
  from Cons.prems obtain tool_embedding where
    emb: "encode env (tool_profile tool) = Some tool_embedding"
    by auto
  obtain score where score:
    "calculate_relevance_score env tool user_context insights user_embedding = Inr score"
    using calculate_relevance_score_Inr [OF emb] by blast
  obtain reply calls' where g:
    "generate_reasoning env calls tool user_context score = (reply, calls')"
    by (cases "generate_reasoning env calls tool user_context score")
  then have calls': "calls' = calls @ [tool]"
    using generate_reasoning_calls [of env calls tool user_context score] by simp
  define r where
    "r = \<lparr>tool_id = id_AITool tool,
          relevance_score = score,
          confidence = min (score * 1.2) 1.0,
          reasoning = reply,
          implementation_complexity = calculate_implementation_complexity tool user_context,
          expected_impact = predict_impact tool user_context,
          learning_time_hours = estimate_learning_time tool user_context\<rparr>"
  have r_for: "recommendation_for env user_context insights user_embedding calls tool r"
    unfolding recommendation_for_def r_def using score g by simp
  have rest: "\<forall>t\<in>set tools. encode env (tool_profile t) \<noteq> None"
    using Cons.prems by simp
  obtain new where new:
    "recommendations_loop env user_context insights user_embedding tools (recs @ [r])
       (calls @ [tool]) = (Inr ((recs @ [r]) @ new), (calls @ [tool]) @ tools)"
    "length new = length tools"
    "\<forall>i<length tools.
       recommendation_for env user_context insights user_embedding
         ((calls @ [tool]) @ take i tools) (tools ! i) (new ! i)"
    using Cons.IH [OF rest, of "recs @ [r]" "calls @ [tool]"] by blast
  have step: "recommendations_loop env user_context insights user_embedding (tool # tools)
                recs calls
              = recommendations_loop env user_context insights user_embedding tools
                  (recs @ [r]) (calls @ [tool])"
    using score g calls' by (simp add: Let_def r_def)
  have 1: "recommendations_loop env user_context insights user_embedding (tool # tools)
             recs calls = (Inr (recs @ (r # new)), calls @ (tool # tools))"
    using step new(1) by simp
  have 2: "length (r # new) = length (tool # tools)"
    using new(2) by simp
  have 3: "\<forall>i<length (tool # tools).
             recommendation_for env user_context insights user_embedding
               (calls @ take i (tool # tools)) ((tool # tools) ! i) ((r # new) ! i)"
  proof (intro allI impI)
    fix i assume "i < length (tool # tools)"
    then show "recommendation_for env user_context insights user_embedding
                 (calls @ take i (tool # tools)) ((tool # tools) ! i) ((r # new) ! i)"
    proof (cases i)
      case 0
      then show ?thesis using r_for by simp
    next
      case (Suc j)
      with \<open>i < length (tool # tools)\<close> have "j < length tools" by simp
      with new(3) Suc show ?thesis by simp
    qed
  qed
  from 1 2 3 show ?case by blast
qed

subsection \<open>The descending stable sort\<close>

lemma set_sort_reverse: "set (sort_reverse f xs) = set xs"
  by (simp add: sort_reverse_def)

lemma length_sort_reverse: "length (sort_reverse f xs) = length xs"
  by (simp add: sort_reverse_def)

lemma insort_key_map:
  "insort_key f (g x) (map g ys) = map g (insort_key (\<lambda>y. f (g y)) x ys)"
  by (induction ys) simp_all

lemma sort_key_map: "sort_key f (map g xs) = map g (sort_key (\<lambda>y. f (g y)) xs)"
  by (induction xs) (simp_all add: insort_key_map)

lemma sort_reverse_map:
  "sort_reverse f (map g xs) = map g (sort_reverse (\<lambda>y. f (g y)) xs)"
  by (simp add: sort_reverse_def rev_map sort_key_map)

text \<open>
  Insertion keeps a list ordered by key, and among equal keys by \<open>lt\<close>, when the
  new element is \<open>lt\<close>-before every element of the list.
\<close>

lemma insort_key_stable:
  fixes f :: "'a \<Rightarrow> real"
  assumes "sorted_wrt (\<lambda>a b. f a < f b \<or> (f a = f b \<and> lt a b)) ys"
      and "\<forall>y\<in>set ys. lt x y"
  shows "sorted_wrt (\<lambda>a b. f a < f b \<or> (f a = f b \<and> lt a b)) (insort_key f x ys)"
  using assms
proof (induction ys)
  case Nil
  then show ?case by simp
next
  case (Cons y ys)
  show ?case
  proof (cases "f x \<le> f y")
    case True
    have "\<forall>z\<in>set (y # ys). f x < f z \<or> (f x = f z \<and> lt x z)"
    proof
      fix z assume z: "z \<in> set (y # ys)"
      have "f y \<le> f z"
      proof (cases "z = y")
        case True
        then show ?thesis by simp
      next
        case False
        with z have "z \<in> set ys" by simp
        with Cons.prems(1) show ?thesis by auto
      qed
      with True have "f x \<le> f z" by simp
      moreover have "lt x z" using Cons.prems(2) z by blast
      ultimately show "f x < f z \<or> (f x = f z \<and> lt x z)" by auto
    qed
    with True Cons.prems(1) show ?thesis by simp
  next
    case False
    then have less: "f y < f x" by simp
    have "sorted_wrt (\<lambda>a b. f a < f b \<or> (f a = f b \<and> lt a b)) (insort_key f x ys)"
      using Cons.IH Cons.prems by simp
    moreover have "\<forall>z\<in>set (insort_key f x ys). f y < f z \<or> (f y = f z \<and> lt y z)"
      using Cons.prems(1) less by (auto simp: set_insort_key)
    ultimately show ?thesis using False by simp
  qed
qed

lemma sort_key_stable_wrt:
  fixes f :: "'a \<Rightarrow> real"
  shows "sorted_wrt lt xs \<Longrightarrow>
           sorted_wrt (\<lambda>a b. f a < f b \<or> (f a = f b \<and> lt a b)) (sort_key f xs)"
proof (induction xs)
  case Nil
  then show ?case by simp
next
  case (Cons x xs)
  then have "sorted_wrt (\<lambda>a b. f a < f b \<or> (f a = f b \<and> lt a b)) (sort_key f xs)"
    and "\<forall>y\<in>set (sort_key f xs). lt x y"
    by simp_all
  then show ?case using insort_key_stable [of f lt "sort_key f xs" x] by simp
qed

lemma sort_reverse_stable_wrt:
  fixes f :: "'a \<Rightarrow> real"
  assumes "sorted_wrt lt xs"
  shows "sorted_wrt (\<lambda>a b. f b < f a \<or> (f a = f b \<and> lt a b)) (sort_reverse f xs)"
proof -
  have "sorted_wrt (\<lambda>a b. lt b a) (rev xs)"
    using assms by (simp add: sorted_wrt_rev)
  then have "sorted_wrt (\<lambda>a b. f a < f b \<or> (f a = f b \<and> lt b a)) (sort_key f (rev xs))"
    by (rule sort_key_stable_wrt)
  then have "sorted_wrt (\<lambda>a b. f b < f a \<or> (f b = f a \<and> lt a b)) (sort_reverse f xs)"
    by (simp add: sort_reverse_def sorted_wrt_rev)
  then show ?thesis
    by (rule sorted_wrt_mono_rel [rotated]) auto
qed

text \<open>
  The sorted list selects the positions of the input in an order \<open>idx\<close> that is
  descending in the key and, among equal keys, ascending in the position.
\<close>

lemma sort_reverse_positions:
  fixes f :: "'a \<Rightarrow> real"
  shows "\<exists>idx. set idx = {..<length xs} \<and> distinct idx \<and> length idx = length xs
           \<and> sort_reverse f xs = map (\<lambda>i. xs ! i) idx
           \<and> sorted_wrt (\<lambda>a b. f (xs ! b) < f (xs ! a)
                               \<or> (f (xs ! a) = f (xs ! b) \<and> a < b)) idx"
proof -
  define idx where "idx = sort_reverse (\<lambda>i. f (xs ! i)) [0..<length xs]"
  have "set idx = {..<length xs}"
    by (auto simp: idx_def set_sort_reverse)
  moreover have "distinct idx"
    by (simp add: idx_def sort_reverse_def)
  moreover have "length idx = length xs"
    by (simp add: idx_def length_sort_reverse)
  moreover have "sort_reverse f xs = map (\<lambda>i. xs ! i) idx"
  proof -
    have "sort_reverse f (map (\<lambda>i. xs ! i) [0..<length xs]) = map (\<lambda>i. xs ! i) idx"
      unfolding idx_def by (rule sort_reverse_map)
    then show ?thesis by (simp add: map_nth)
  qed
  moreover have "sorted_wrt (\<lambda>a b. f (xs ! b) < f (xs ! a)
                               \<or> (f (xs ! a) = f (xs ! b) \<and> a < b)) idx"
    unfolding idx_def
    using sort_reverse_stable_wrt [of "(<)" "[0..<length xs]" "\<lambda>i. f (xs ! i)"]
    by simp
  ultimately show ?thesis by blast
qed

subsection \<open>The whole request\<close>

lemma recommendation_forD:
  assumes "recommendation_for env user_context insights user_embedding calls tool r"
  shows "calculate_relevance_score env tool user_context insights user_embedding
           = Inr (relevance_score r)"
    and "tool_id r = id_AITool tool"
    and "confidence r = min (relevance_score r * 1.2) 1.0"
    and "reasoning r
           = fst (generate_reasoning env calls tool user_context (relevance_score r))"
    and "implementation_complexity r = calculate_implementation_complexity tool user_context"
    and "expected_impact r = predict_impact tool user_context"
    and "learning_time_hours r = estimate_learning_time tool user_context"
  using assms unfolding recommendation_for_def
  by (auto split: sum.splits)

lemma generate_recommendations_success:
  assumes "encode env (create_user_profile env user_context insights) = Some user_embedding"
      and "\<forall>t\<in>set tools. encode env (tool_profile t) \<noteq> None"
  shows "\<exists>new. generate_recommendations env user_context insights tools calls
                 = (take 10 (sort_reverse relevance_score new), calls @ tools)
           \<and> length new = length tools
           \<and> (\<forall>i<length tools.
                 recommendation_for env user_context insights user_embedding
                   (calls @ take i tools) (tools ! i) (new ! i))"
proof -
  obtain new where new:
    "recommendations_loop env user_context insights user_embedding tools [] calls
       = (Inr ([] @ new), calls @ tools)"
    "length new = length tools"
    "\<forall>i<length tools.
       recommendation_for env user_context insights user_embedding
         (calls @ take i tools) (tools ! i) (new ! i)"
    using recommendations_loop_success [OF assms(2), of user_context insights user_embedding
        "[]" calls]
    by blast
  have "generate_recommendations env user_context insights tools calls
          = (take 10 (sort_reverse relevance_score new), calls @ tools)"
    unfolding generate_recommendations_def Let_def using assms(1) new(1) by simp
  with new(2,3) show ?thesis by blast
qed

lemma generate_recommendations_failure:
  assumes "encode env (create_user_profile env user_context insights) = None
             \<or> (\<exists>t\<in>set tools. encode env (tool_profile t) = None)"
  shows "fst (generate_recommendations env user_context insights tools calls) = []"
proof (cases "encode env (create_user_profile env user_context insights)")
  case None
  then show ?thesis
    unfolding generate_recommendations_def Let_def by simp
next
  case (Some user_embedding)
  with assms have "\<exists>t\<in>set tools. encode env (tool_profile t) = None" by simp
  then have "fst (recommendations_loop env user_context insights user_embedding tools []
                    calls) = Inl EncodeError"
    by (rule recommendations_loop_failure)
  then obtain calls' where
    "recommendations_loop env user_context insights user_embedding tools [] calls
       = (Inl EncodeError, calls')"
    by (cases "recommendations_loop env user_context insights user_embedding tools []
                 calls") simp
  then show ?thesis
    unfolding generate_recommendations_def Let_def using Some by simp
qed

lemma generate_recommendations_calls:
  "snd (generate_recommendations env user_context insights tools calls) =
     (if encode env (create_user_profile env user_context insights) = None then calls
      else calls @ takeWhile (\<lambda>t. encode env (tool_profile t) \<noteq> None) tools)"
proof (cases "encode env (create_user_profile env user_context insights)")
  case None
  then show ?thesis
    unfolding generate_recommendations_def Let_def by simp
next
  case (Some user_embedding)
  obtain res calls' where loop:
    "recommendations_loop env user_context insights user_embedding tools [] calls
       = (res, calls')"
    by (cases "recommendations_loop env user_context insights user_embedding tools []
                 calls")
  have "snd (recommendations_loop env user_context insights user_embedding tools [] calls)
          = calls @ takeWhile (\<lambda>t. encode env (tool_profile t) \<noteq> None) tools"
    by (rule recommendations_loop_calls)
  with loop have calls':
    "calls' = calls @ takeWhile (\<lambda>t. encode env (tool_profile t) \<noteq> None) tools"
    by simp
  have "snd (generate_recommendations env user_context insights tools calls) = calls'"
    unfolding generate_recommendations_def Let_def using Some loop
    by (cases res) simp_all
  with calls' Some show ?thesis by simp
qed

text \<open>Every recommendation of a result was appended by a pass of the loop.\<close>

lemma generate_recommendations_member:
  assumes "r \<in> set (fst (generate_recommendations env user_context insights tools calls))"
  shows "\<exists>user_embedding calls' tool. tool \<in> set tools \<and>
           recommendation_for env user_context insights user_embedding calls' tool r"
proof (cases "encode env (create_user_profile env user_context insights)")
  case None
  then show ?thesis
    using assms generate_recommendations_failure [of env user_context insights tools calls]
    by simp
next
  case (Some user_embedding)
  show ?thesis
  proof (cases "\<exists>t\<in>set tools. encode env (tool_profile t) = None")
    case True
    then show ?thesis
      using assms generate_recommendations_failure [of env user_context insights tools calls]
      by simp
  next
    case False
    then have all: "\<forall>t\<in>set tools. encode env (tool_profile t) \<noteq> None" by simp
    obtain new where new:
      "generate_recommendations env user_context insights tools calls
         = (take 10 (sort_reverse relevance_score new), calls @ tools)"
      "length new = length tools"
      "\<forall>i<length tools.
         recommendation_for env user_context insights user_embedding
           (calls @ take i tools) (tools ! i) (new ! i)"
      using generate_recommendations_success [OF Some all] by blast
    from assms new(1) have "r \<in> set (take 10 (sort_reverse relevance_score new))" by simp
    then have "r \<in> set new"
      using set_take_subset [of 10 "sort_reverse relevance_score new"]
      by (auto simp: set_sort_reverse)
    then obtain i where i: "i < length new" "r = new ! i"
      by (auto simp: in_set_conv_nth)
    with new(2,3) have "recommendation_for env user_context insights user_embedding
                          (calls @ take i tools) (tools ! i) r"
      by simp
    moreover have "tools ! i \<in> set tools" using i(1) new(2) by simp
    ultimately show ?thesis by blast
  qed
qed

subsection \<open>Bounds of a recommendation\<close>

lemma base_time_nonneg: "0 \<le> dict_get base_time s 6"
  by (simp add: dict_get_def base_time_def)

lemma difficulty_multiplier_nonneg: "0 \<le> dict_get difficulty_multiplier s 1.5"
  by (simp add: dict_get_def difficulty_multiplier_def)

lemma estimate_learning_time_nonneg: "0 \<le> estimate_learning_time tool user_context"
proof -
  have "0 \<le> real_of_int (dict_get base_time (skill_level user_context) 6)
              * dict_get difficulty_multiplier (difficulty_level tool) 1.5"
    using base_time_nonneg difficulty_multiplier_nonneg by simp
  then show ?thesis
    unfolding estimate_learning_time_def Let_def int_of_float_def by simp
qed

lemma calculate_implementation_complexity_bounds:
  "1 \<le> calculate_implementation_complexity tool user_context
     \<and> calculate_implementation_complexity tool user_context \<le> 5"
  unfolding calculate_implementation_complexity_def Let_def by simp

lemma relevance_score_bounds:
  assumes "calculate_relevance_score env tool user_context insights user_embedding = Inr score"
  shows "score \<le> 1"
    and "(\<forall>u t. - 43 / 60 \<le> cosine_similarity env u t) \<Longrightarrow> 0 \<le> score"
proof -
  obtain tool_embedding where emb: "encode env (tool_profile tool) = Some tool_embedding"
    using assms calculate_relevance_score_Inl [of env tool user_context insights user_embedding]
    by (cases "encode env (tool_profile tool)") auto
  obtain d where d: "0 \<le> d"
    and eq: "calculate_relevance_score env tool user_context insights user_embedding =
          Inr (min (cosine_similarity env user_embedding tool_embedding * 0.3
                     + calculate_skill_match tool user_context * 0.25 + d * 0.25
                     + calculate_tool_compatibility tool user_context * 0.2) 1.0)"
    using calculate_relevance_score_Inr [OF emb] by blast
  from assms eq have score:
    "score = min (cosine_similarity env user_embedding tool_embedding * 0.3
                   + calculate_skill_match tool user_context * 0.25 + d * 0.25
                   + calculate_tool_compatibility tool user_context * 0.2) 1.0"
    by simp
  show "score \<le> 1" unfolding score by simp
  assume "\<forall>u t. - 43 / 60 \<le> cosine_similarity env u t"
  then have c: "- 43 / 60 \<le> cosine_similarity env user_embedding tool_embedding" by blast
  have s: "3 / 10 \<le> calculate_skill_match tool user_context"
    using calculate_skill_match_bounds by blast
  have "0 \<le> cosine_similarity env user_embedding tool_embedding * 0.3
              + calculate_skill_match tool user_context * 0.25 + d * 0.25
              + calculate_tool_compatibility tool user_context * 0.2"
    using c s d by (simp add: calculate_tool_compatibility_def)
  then show "0 \<le> score" unfolding score by simp
qed

text \<open>
  C2 as the specification states it: the relevance score of every recommendation is in
  \<open>[0, 1]\<close>, and its confidence is in \<open>[0, 1]\<close> and at least the relevance score. The
  code caps the relevance score above only: for a beginner in marketing, an advanced
  security tool and a cosine similarity of \<open>-1\<close> the relevance score is \<open>-0.085\<close> and
  the confidence \<open>-0.102\<close>.
\<close>

theorem recommendation_bounds_counterexample:
  "map relevance_score
     (fst (generate_recommendations (constant_env (- 1)) beginner_user Map.empty
             [example_tool] [])) = [- 0.085]
   \<and> map confidence
       (fst (generate_recommendations (constant_env (- 1)) beginner_user Map.empty
               [example_tool] [])) = [- 0.102]"
  by code_simp

text \<open>
  C2, amended. For every recommendation of a result: the relevance score is at most 1,
  and at least 0 when no cosine similarity is below \<open>-43/60\<close>; the confidence is
  \<open>min (relevance_score * 1.2) 1.0\<close>, at most 1, and both at least 0 and at least the
  relevance score when the relevance score is at least 0; the implementation complexity
  is an integer from 1 to 5; the learning time is a non-negative integer.
\<close>

theorem recommendation_bounds:
  assumes "r \<in> set (fst (generate_recommendations env user_context insights tools calls))"
  shows "relevance_score r \<le> 1
     \<and> ((\<forall>u t. - 43 / 60 \<le> cosine_similarity env u t) \<longrightarrow> 0 \<le> relevance_score r)
     \<and> confidence r = min (relevance_score r * 1.2) 1.0
     \<and> confidence r \<le> 1
     \<and> (0 \<le> relevance_score r \<longrightarrow> 0 \<le> confidence r \<and> relevance_score r \<le> confidence r)
     \<and> 1 \<le> implementation_complexity r \<and> implementation_complexity r \<le> 5
     \<and> 0 \<le> learning_time_hours r"
proof -
  obtain user_embedding calls' tool where
    rf: "recommendation_for env user_context insights user_embedding calls' tool r"
    using generate_recommendations_member [OF assms] by blast
  note d = recommendation_forD [OF rf]
  have 1: "relevance_score r \<le> 1"
    using relevance_score_bounds(1) [OF d(1)] .
  have 2: "(\<forall>u t. - 43 / 60 \<le> cosine_similarity env u t) \<longrightarrow> 0 \<le> relevance_score r"
    using relevance_score_bounds(2) [OF d(1)] by blast
  have 3: "confidence r = min (relevance_score r * 1.2) 1.0"
    using d(3) .
  have 4: "confidence r \<le> 1"
    unfolding 3 by simp
  have 5: "0 \<le> relevance_score r \<longrightarrow> 0 \<le> confidence r \<and> relevance_score r \<le> confidence r"
    unfolding 3 using 1 by (simp add: min_def)
  have 6: "1 \<le> implementation_complexity r \<and> implementation_complexity r \<le> 5"
    unfolding d(5) by (rule calculate_implementation_complexity_bounds)
  have 7: "0 \<le> learning_time_hours r"
    unfolding d(7) by (rule estimate_learning_time_nonneg)
  from 1 2 3 4 5 6 7 show ?thesis by blast
qed

theorem recommendation_bounds_witness:
  "\<lparr>tool_id = ''scanner'', relevance_score = 0.79, confidence = 0.948,
    reasoning = ''Recommended based on relevance to your cloud security work and intermediate skill level.'',
    implementation_complexity = 3, expected_impact = ''High'', learning_time_hours = 8\<rparr>
     \<in> set (fst (generate_recommendations (constant_env 0.5) example_user Map.empty
                   [example_tool] []))
   \<and> (\<forall>u t. - 43 / 60 \<le> cosine_similarity (constant_env 0.5) u t)
   \<and> (0.79 :: real) \<le> 1 \<and> (0 :: real) \<le> 0.79
   \<and> (0.948 :: real) = min (0.79 * 1.2) 1.0 \<and> (0.79 :: real) \<le> 0.948"
proof -
  let ?r = "\<lparr>tool_id = ''scanner'', relevance_score = 0.79, confidence = 0.948,
    reasoning = ''Recommended based on relevance to your cloud security work and intermediate skill level.'',
    implementation_complexity = 3, expected_impact = ''High'', learning_time_hours = 8\<rparr>"
  have h: "?r \<in> set (fst (generate_recommendations (constant_env 0.5) example_user Map.empty
                   [example_tool] []))"
    by code_simp
  have c: "\<forall>u t. - 43 / 60 \<le> cosine_similarity (constant_env 0.5) u t"
    by (simp add: constant_env_def)
  show ?thesis
    using recommendation_bounds [OF h] h c by simp
qed

subsection \<open>Ranking order\<close>

text \<open>
  C3 as the specification states it: for every candidate-tool list of length \<open>N\<close> the
  returned list has length exactly \<open>min 10 N\<close>. The code returns the empty list when
  an embedding call raises: with an embedding model that raises on the profile of
  \<open>claude3\<close>, the request for the two tools \<open>gpt4\<close> and \<open>claude3\<close> returns a list
  of length 0, where \<open>min 10 2\<close> is 2.
\<close>

theorem ranking_length_counterexample:
  "length (fst (generate_recommendations (failing_env (tool_profile claude3)) example_user
                  Map.empty [gpt4, claude3] [])) = 0
   \<and> min 10 (length [gpt4, claude3]) = 2"
  by code_simp

text \<open>
  C3, amended. When the embedding collaborator returns the embedding of the user
  profile and of every candidate tool, the list returned for \<open>N\<close> candidate tools has
  length \<open>min 10 N\<close>, is ordered by relevance score descending, and tools with equal
  relevance scores appear in their catalog order. \<open>positions\<close> gives for each place
  of the result the place of its tool in the catalog; the tools left out score no
  higher than any tool returned.
\<close>

theorem ranking_sorted_stable_truncated:
  assumes "encode env (create_user_profile env user_context insights) = Some user_embedding"
      and "\<forall>t\<in>set tools. encode env (tool_profile t) \<noteq> None"
  shows "\<exists>positions.
           length (fst (generate_recommendations env user_context insights tools calls))
             = min 10 (length tools)
         \<and> (\<forall>i j. i < j
                  \<and> j < length (fst (generate_recommendations env user_context insights tools calls))
               \<longrightarrow> relevance_score
                     (fst (generate_recommendations env user_context insights tools calls) ! j)
                   \<le> relevance_score
                       (fst (generate_recommendations env user_context insights tools calls) ! i))
         \<and> length positions
             = length (fst (generate_recommendations env user_context insights tools calls))
         \<and> distinct positions
         \<and> (\<forall>p < length positions.
               positions ! p < length tools
             \<and> tool_id (fst (generate_recommendations env user_context insights tools calls) ! p)
                 = id_AITool (tools ! (positions ! p))
             \<and> calculate_relevance_score env (tools ! (positions ! p)) user_context insights
                   user_embedding
                 = Inr (relevance_score
                          (fst (generate_recommendations env user_context insights tools calls)
                             ! p)))
         \<and> (\<forall>p q. p < q \<and> q < length positions
                  \<and> relevance_score
                       (fst (generate_recommendations env user_context insights tools calls) ! p)
                     = relevance_score
                         (fst (generate_recommendations env user_context insights tools calls) ! q)
               \<longrightarrow> positions ! p < positions ! q)
         \<and> (\<forall>j < length tools. j \<notin> set positions \<longrightarrow>
               (\<forall>p < length positions. \<forall>score.
                  calculate_relevance_score env (tools ! j) user_context insights user_embedding
                    = Inr score
                  \<longrightarrow> score
                      \<le> relevance_score
                          (fst (generate_recommendations env user_context insights tools calls)
                             ! p)))"
proof -
  let ?result = "fst (generate_recommendations env user_context insights tools calls)"
  let ?key = "\<lambda>new i. relevance_score (new ! i)"
  obtain new where new:
    "generate_recommendations env user_context insights tools calls
       = (take 10 (sort_reverse relevance_score new), calls @ tools)"
    "length new = length tools"
    "\<forall>i<length tools.
       recommendation_for env user_context insights user_embedding
         (calls @ take i tools) (tools ! i) (new ! i)"
    using generate_recommendations_success [OF assms] by blast
  obtain idx where idx:
    "set idx = {..<length new}" "distinct idx" "length idx = length new"
    "sort_reverse relevance_score new = map (\<lambda>i. new ! i) idx"
    "sorted_wrt (\<lambda>a b. ?key new b < ?key new a \<or> (?key new a = ?key new b \<and> a < b)) idx"
    using sort_reverse_positions [of new relevance_score] by blast
  define positions where "positions = take 10 idx"
  have result: "?result = map (\<lambda>i. new ! i) positions"
    unfolding positions_def using new(1) idx(4) by (simp add: take_map)
  have len: "length positions = min 10 (length tools)"
    unfolding positions_def using idx(3) new(2) by (simp add: min.commute)
  have dist: "distinct positions"
    unfolding positions_def using idx(2) by (rule distinct_take)
  have sorted_pos:
    "sorted_wrt (\<lambda>a b. ?key new b < ?key new a \<or> (?key new a = ?key new b \<and> a < b)) positions"
    unfolding positions_def using idx(5) by (rule sorted_wrt_take)
  have in_range: "positions ! p < length tools" if "p < length positions" for p
  proof -
    have "positions ! p \<in> set positions" using that by simp
    then have "positions ! p \<in> set idx"
      unfolding positions_def by (rule in_set_takeD)
    then show ?thesis using idx(1) new(2) by simp
  qed
  have nth_result: "?result ! p = new ! (positions ! p)" if "p < length positions" for p
    using that result by simp
  have order: "?key new (positions ! q) < ?key new (positions ! p)
                 \<or> (?key new (positions ! p) = ?key new (positions ! q)
                     \<and> positions ! p < positions ! q)"
    if "p < q" "q < length positions" for p q
    using sorted_wrt_nth_less [OF sorted_pos that] .
  have 1: "length ?result = min 10 (length tools)"
    using result len by simp
  have 2: "\<forall>i j. i < j \<and> j < length ?result
             \<longrightarrow> relevance_score (?result ! j) \<le> relevance_score (?result ! i)"
  proof (intro allI impI)
    fix i j assume ij: "i < j \<and> j < length ?result"
    then have j: "j < length positions" and i: "i < length positions"
      using result by simp_all
    from order [of i j] ij j
    have "?key new (positions ! j) \<le> ?key new (positions ! i)" by auto
    then show "relevance_score (?result ! j) \<le> relevance_score (?result ! i)"
      using nth_result [OF i] nth_result [OF j] by simp
  qed
  have 3: "length positions = length ?result"
    using result by simp
  have 5: "\<forall>p < length positions.
             positions ! p < length tools
           \<and> tool_id (?result ! p) = id_AITool (tools ! (positions ! p))
           \<and> calculate_relevance_score env (tools ! (positions ! p)) user_context insights
                 user_embedding
               = Inr (relevance_score (?result ! p))"
  proof (intro allI impI)
    fix p assume p: "p < length positions"
    have r: "positions ! p < length tools" using in_range [OF p] .
    with new(3) have rf:
      "recommendation_for env user_context insights user_embedding
         (calls @ take (positions ! p) tools) (tools ! (positions ! p))
         (new ! (positions ! p))"
      by blast
    show "positions ! p < length tools
           \<and> tool_id (?result ! p) = id_AITool (tools ! (positions ! p))
           \<and> calculate_relevance_score env (tools ! (positions ! p)) user_context insights
                 user_embedding
               = Inr (relevance_score (?result ! p))"
      using r recommendation_forD(1,2) [OF rf] nth_result [OF p] by simp
  qed
  have 6: "\<forall>p q. p < q \<and> q < length positions
                \<and> relevance_score (?result ! p) = relevance_score (?result ! q)
             \<longrightarrow> positions ! p < positions ! q"
  proof (intro allI impI)
    fix p q
    assume pq: "p < q \<and> q < length positions
                  \<and> relevance_score (?result ! p) = relevance_score (?result ! q)"
    then have q: "q < length positions" and p: "p < length positions" by simp_all
    from pq nth_result [OF p] nth_result [OF q]
    have "?key new (positions ! p) = ?key new (positions ! q)" by simp
    with order [of p q] pq show "positions ! p < positions ! q" by auto
  qed
  have 7: "\<forall>j < length tools. j \<notin> set positions \<longrightarrow>
             (\<forall>p < length positions. \<forall>score.
                calculate_relevance_score env (tools ! j) user_context insights user_embedding
                  = Inr score
                \<longrightarrow> score \<le> relevance_score (?result ! p))"
  proof (intro allI impI)
    fix j p score
    assume j: "j < length tools" and out: "j \<notin> set positions"
      and p: "p < length positions"
      and score: "calculate_relevance_score env (tools ! j) user_context insights
                    user_embedding = Inr score"
    have "j \<in> set idx" using j idx(1) new(2) by simp
    moreover have "set idx = set (take 10 idx) \<union> set (drop 10 idx)"
      by (metis append_take_drop_id set_append)
    ultimately have dropped: "j \<in> set (drop 10 idx)"
      using out unfolding positions_def by blast
    have "positions ! p \<in> set positions" using p by (rule nth_mem)
    then have kept: "positions ! p \<in> set (take 10 idx)"
      unfolding positions_def .
    have "sorted_wrt (\<lambda>a b. ?key new b < ?key new a \<or> (?key new a = ?key new b \<and> a < b))
            (take 10 idx @ drop 10 idx)"
      using idx(5) by simp
    then have "?key new j < ?key new (positions ! p)
                 \<or> (?key new (positions ! p) = ?key new j \<and> positions ! p < j)"
      using kept dropped unfolding sorted_wrt_append by blast
    then have le: "relevance_score (new ! j) \<le> relevance_score (new ! (positions ! p))"
      by auto
    from new(3) j have
      "recommendation_for env user_context insights user_embedding
         (calls @ take j tools) (tools ! j) (new ! j)"
      by blast
    from recommendation_forD(1) [OF this] score have "score = relevance_score (new ! j)"
      by simp
    with le nth_result [OF p] show "score \<le> relevance_score (?result ! p)" by simp
  qed
  from 1 2 3 dist 5 6 7 show ?thesis by blast
qed

theorem ranking_sorted_stable_truncated_witness:
  "encode answering_env (create_user_profile answering_env example_user Map.empty) = Some ()
   \<and> encode answering_env (tool_profile gpt4) \<noteq> None
   \<and> encode answering_env (tool_profile claude3) \<noteq> None
   \<and> encode answering_env (tool_profile example_tool) \<noteq> None
   \<and> length (fst (generate_recommendations answering_env example_user Map.empty
                     [gpt4, claude3, example_tool, claude3] [])) = 4
   \<and> map tool_id (fst (generate_recommendations answering_env example_user Map.empty
                         [gpt4, claude3, example_tool, claude3] []))
       = [''scanner'', ''claude3'', ''claude3'', ''gpt4'']
   \<and> map relevance_score (fst (generate_recommendations answering_env example_user Map.empty
                                 [gpt4, claude3, example_tool, claude3] []))
       = [0.79, 0.49, 0.49, 0.44]"
proof -
  have u: "encode answering_env (create_user_profile answering_env example_user Map.empty)
             = Some ()"
    by (simp add: answering_env_def)
  have t: "\<forall>t\<in>set [gpt4, claude3, example_tool, claude3].
             encode answering_env (tool_profile t) \<noteq> None"
    by (simp add: answering_env_def)
  have ids: "map tool_id (fst (generate_recommendations answering_env example_user Map.empty
                                 [gpt4, claude3, example_tool, claude3] []))
               = [''scanner'', ''claude3'', ''claude3'', ''gpt4'']"
    by code_simp
  have scores: "map relevance_score
                  (fst (generate_recommendations answering_env example_user Map.empty
                          [gpt4, claude3, example_tool, claude3] []))
                  = [0.79, 0.49, 0.49, 0.44]"
    by code_simp
  show ?thesis
    using ranking_sorted_stable_truncated [OF u t, of "[]"] u t ids scores
    by simp
qed

subsection \<open>Embedding failures\<close>

text \<open>
  C4 as the specification states it: when the embedding of one tool fails, the other
  tools are still scored and ranked and the request returns a ranked list, and when
  the user embedding fails the batch is scored with the semantic term 0. In the code
  either failure empties the result: with an embedding model that raises on the
  profile of \<open>claude3\<close> only, the request for \<open>gpt4\<close> and \<open>claude3\<close> returns no
  recommendation, although with working collaborators \<open>gpt4\<close> is recommended; and so
  does the request with an embedding model that raises on the user profile only.
\<close>

theorem embedding_failure_counterexample:
  "encode (failing_env (tool_profile claude3))
       (create_user_profile (failing_env (tool_profile claude3)) example_user Map.empty)
     = Some ()
   \<and> encode (failing_env (tool_profile claude3)) (tool_profile gpt4) = Some ()
   \<and> encode (failing_env (tool_profile claude3)) (tool_profile claude3) = None
   \<and> fst (generate_recommendations (failing_env (tool_profile claude3)) example_user
            Map.empty [gpt4, claude3] []) = []
   \<and> map tool_id (fst (generate_recommendations answering_env example_user
                         Map.empty [gpt4, claude3] [])) = [''claude3'', ''gpt4'']
   \<and> encode (failing_env (create_user_profile answering_env example_user Map.empty))
         (create_user_profile
            (failing_env (create_user_profile answering_env example_user Map.empty))
            example_user Map.empty)
       = None
   \<and> fst (generate_recommendations
            (failing_env (create_user_profile answering_env example_user Map.empty))
            example_user Map.empty [gpt4, claude3] []) = []"
  by code_simp

text \<open>
  C4, amended. Embedding failures are not isolated: when the embedding call fails for
  the user profile or for any one tool, the request returns the empty list, whatever
  the other tools score, and no exception reaches the caller. The text-generation
  calls made for the tools before the first failing one remain made.
\<close>

theorem embedding_failure_empties_result:
  assumes "encode env (create_user_profile env user_context insights) = None
             \<or> (\<exists>t\<in>set tools. encode env (tool_profile t) = None)"
  shows "fst (generate_recommendations env user_context insights tools calls) = []
     \<and> snd (generate_recommendations env user_context insights tools calls)
         = (if encode env (create_user_profile env user_context insights) = None then calls
            else calls @ takeWhile (\<lambda>t. encode env (tool_profile t) \<noteq> None) tools)"
proof
  show "fst (generate_recommendations env user_context insights tools calls) = []"
    using assms by (rule generate_recommendations_failure)
  show "snd (generate_recommendations env user_context insights tools calls)
         = (if encode env (create_user_profile env user_context insights) = None then calls
            else calls @ takeWhile (\<lambda>t. encode env (tool_profile t) \<noteq> None) tools)"
    by (rule generate_recommendations_calls)
qed

theorem embedding_failure_empties_result_witness:
  "encode (failing_env (tool_profile claude3)) (tool_profile claude3) = None
   \<and> fst (generate_recommendations (failing_env (tool_profile claude3)) example_user
            Map.empty [gpt4, claude3] []) = []
   \<and> map id_AITool
         (snd (generate_recommendations (failing_env (tool_profile claude3)) example_user
                 Map.empty [gpt4, claude3] [])) = [''gpt4'']"
proof -
  have n: "encode (failing_env (tool_profile claude3)) (tool_profile claude3) = None"
    by (simp add: failing_env_def)
  then have h: "encode (failing_env (tool_profile claude3))
                    (create_user_profile (failing_env (tool_profile claude3)) example_user
                       Map.empty) = None
                  \<or> (\<exists>t\<in>set [gpt4, claude3].
                        encode (failing_env (tool_profile claude3)) (tool_profile t) = None)"
    by simp
  have c: "map id_AITool
             (snd (generate_recommendations (failing_env (tool_profile claude3)) example_user
                     Map.empty [gpt4, claude3] [])) = [''gpt4'']"
    by code_simp
  show ?thesis
    using embedding_failure_empties_result [OF h, of "[]"] n c by simp
qed

subsection \<open>Text-generation calls\<close>

text \<open>
  C5 as the specification states it: text generation is invoked for the top 3
  recommendations only, so at most 3 times per request. In the code the call is in the
  scoring loop, before the sort: a request with four candidate tools makes four calls,
  one of them for \<open>gpt4\<close>, which ranks last.
\<close>

theorem text_generation_calls_counterexample:
  "map id_AITool
     (snd (generate_recommendations answering_env example_user Map.empty
             [gpt4, claude3, example_tool, claude3] []))
     = [''gpt4'', ''claude3'', ''scanner'', ''claude3'']
   \<and> map tool_id
       (fst (generate_recommendations answering_env example_user Map.empty
               [gpt4, claude3, example_tool, claude3] []))
       = [''scanner'', ''claude3'', ''claude3'', ''gpt4'']"
  by code_simp

text \<open>
  C5, amended. During a ranking request the text-generation collaborator is invoked
  once for each candidate tool that is scored, in catalog order and before sorting and
  truncation: for the tools before the first one whose embedding fails, and for none
  when the user embedding fails. So a request makes at most \<open>N\<close> calls for \<open>N\<close>
  candidate tools, and exactly \<open>N\<close> when every embedding succeeds.
\<close>

theorem text_generation_once_per_scored_tool:
  "snd (generate_recommendations env user_context insights tools calls)
     = (if encode env (create_user_profile env user_context insights) = None then calls
        else calls @ takeWhile (\<lambda>t. encode env (tool_profile t) \<noteq> None) tools)
   \<and> length (snd (generate_recommendations env user_context insights tools calls))
       \<le> length calls + length tools
   \<and> (encode env (create_user_profile env user_context insights) \<noteq> None
        \<and> (\<forall>t\<in>set tools. encode env (tool_profile t) \<noteq> None)
      \<longrightarrow> snd (generate_recommendations env user_context insights tools calls)
            = calls @ tools)"
proof -
  have eq: "snd (generate_recommendations env user_context insights tools calls)
     = (if encode env (create_user_profile env user_context insights) = None then calls
        else calls @ takeWhile (\<lambda>t. encode env (tool_profile t) \<noteq> None) tools)"
    by (rule generate_recommendations_calls)
  have "length (takeWhile (\<lambda>t. encode env (tool_profile t) \<noteq> None) tools) \<le> length tools"
    by (rule length_takeWhile_le)
  then have le: "length (snd (generate_recommendations env user_context insights tools calls))
                   \<le> length calls + length tools"
    unfolding eq by simp
  have all: "encode env (create_user_profile env user_context insights) \<noteq> None
        \<and> (\<forall>t\<in>set tools. encode env (tool_profile t) \<noteq> None)
      \<longrightarrow> snd (generate_recommendations env user_context insights tools calls)
            = calls @ tools"
    unfolding eq by (simp add: takeWhile_eq_all_conv)
  from eq le all show ?thesis by blast
qed

theorem text_generation_once_per_scored_tool_witness:
  "encode answering_env (create_user_profile answering_env example_user Map.empty) \<noteq> None
   \<and> encode answering_env (tool_profile gpt4) \<noteq> None
   \<and> encode answering_env (tool_profile claude3) \<noteq> None
   \<and> encode answering_env (tool_profile example_tool) \<noteq> None
   \<and> snd (generate_recommendations answering_env example_user Map.empty
            [gpt4, claude3, example_tool, claude3] [])
       = [gpt4, claude3, example_tool, claude3]"
proof -
  have u: "encode answering_env (create_user_profile answering_env example_user Map.empty)
             \<noteq> None"
    by (simp add: answering_env_def)
  have t: "\<forall>t\<in>set [gpt4, claude3, example_tool, claude3].
             encode answering_env (tool_profile t) \<noteq> None"
    by (simp add: answering_env_def)
  show ?thesis
    using text_generation_once_per_scored_tool
      [of answering_env example_user Map.empty "[gpt4, claude3, example_tool, claude3]" "[]"]
      u t
    by simp
qed

subsection \<open>Fallback reasoning\<close>

text \<open>
  C8. Whenever a text-generation call fails, the reasoning of the affected
  recommendation is exactly the template \<^verbatim>\<open>Recommended based on relevance to your
  {work_domain} work and {skill_level} skill level.\<close> with the user's work domain and
  skill level interpolated. The fallback is never the empty string, and a failing
  text generation raises nothing to the caller: when it fails on every call, every
  recommendation returned carries the fallback, and the request still returns its
  \<open>min 10 N\<close> recommendations when the embeddings succeed.
\<close>

theorem fallback_reasoning:
  "(messages_create env calls tool user_context score = None \<longrightarrow>
      fst (generate_reasoning env calls tool user_context score)
        = ''Recommended based on relevance to your '' @ work_domain user_context
            @ '' work and '' @ skill_level user_context @ '' skill level.'')
   \<and> ''Recommended based on relevance to your '' @ work_domain user_context
         @ '' work and '' @ skill_level user_context @ '' skill level.'' \<noteq> ''''
   \<and> ((\<forall>calls' tool' score'. messages_create env calls' tool' user_context score' = None)
      \<longrightarrow> (\<forall>r\<in>set (fst (generate_recommendations env user_context insights tools calls)).
             reasoning r
               = ''Recommended based on relevance to your '' @ work_domain user_context
                   @ '' work and '' @ skill_level user_context @ '' skill level.''))
   \<and> (encode env (create_user_profile env user_context insights) \<noteq> None
        \<and> (\<forall>t\<in>set tools. encode env (tool_profile t) \<noteq> None)
      \<longrightarrow> length (fst (generate_recommendations env user_context insights tools calls))
            = min 10 (length tools))"
proof -
  let ?fallback = "''Recommended based on relevance to your '' @ work_domain user_context
                     @ '' work and '' @ skill_level user_context @ '' skill level.''"
  have 1: "messages_create env calls tool user_context score = None \<longrightarrow>
             fst (generate_reasoning env calls tool user_context score) = ?fallback"
    using generate_reasoning_fallback by blast
  have 2: "?fallback \<noteq> ''''" by simp
  have 3: "(\<forall>calls' tool' score'. messages_create env calls' tool' user_context score' = None)
             \<longrightarrow> (\<forall>r\<in>set (fst (generate_recommendations env user_context insights tools
                                    calls)). reasoning r = ?fallback)"
  proof (intro impI ballI)
    fix r
    assume fails: "\<forall>calls' tool' score'.
                     messages_create env calls' tool' user_context score' = None"
      and r: "r \<in> set (fst (generate_recommendations env user_context insights tools calls))"
    obtain user_embedding calls' tool' where
      rf: "recommendation_for env user_context insights user_embedding calls' tool' r"
      using generate_recommendations_member [OF r] by blast
    have "messages_create env calls' tool' user_context (relevance_score r) = None"
      using fails by blast
    then show "reasoning r = ?fallback"
      unfolding recommendation_forD(4) [OF rf] by (rule generate_reasoning_fallback)
  qed
  have 4: "encode env (create_user_profile env user_context insights) \<noteq> None
             \<and> (\<forall>t\<in>set tools. encode env (tool_profile t) \<noteq> None)
           \<longrightarrow> length (fst (generate_recommendations env user_context insights tools calls))
                 = min 10 (length tools)"
  proof
    assume ok: "encode env (create_user_profile env user_context insights) \<noteq> None
                  \<and> (\<forall>t\<in>set tools. encode env (tool_profile t) \<noteq> None)"
    then obtain user_embedding where
      u: "encode env (create_user_profile env user_context insights) = Some user_embedding"
      by auto
    from ok have t: "\<forall>t\<in>set tools. encode env (tool_profile t) \<noteq> None" by simp
    obtain new where
      "generate_recommendations env user_context insights tools calls
         = (take 10 (sort_reverse relevance_score new), calls @ tools)"
      "length new = length tools"
      using generate_recommendations_success [OF u t] by blast
    then show "length (fst (generate_recommendations env user_context insights tools calls))
                 = min 10 (length tools)"
      by (simp add: length_sort_reverse min.commute)
  qed
  from 1 2 3 4 show ?thesis by blast
qed

theorem fallback_reasoning_witness:
  "messages_create (constant_env 0.5) [] example_tool example_user 0.79 = None
   \<and> fst (generate_reasoning (constant_env 0.5) [] example_tool example_user 0.79)
       = ''Recommended based on relevance to your cloud security work and intermediate skill level.''
   \<and> (\<forall>calls' tool' score'.
         messages_create (constant_env 0.5) calls' tool' example_user score' = None)
   \<and> map reasoning
         (fst (generate_recommendations (constant_env 0.5) example_user Map.empty
                 [gpt4, example_tool] []))
       = [''Recommended based on relevance to your cloud security work and intermediate skill level.'',
          ''Recommended based on relevance to your cloud security work and intermediate skill level.'']
   \<and> length (fst (generate_recommendations (constant_env 0.5) example_user Map.empty
                     [gpt4, example_tool] [])) = 2"
proof -
  have n: "\<forall>calls' tool' score'.
             messages_create (constant_env 0.5) calls' tool' example_user score' = None"
    by (simp add: constant_env_def)
  have e: "encode (constant_env 0.5)
             (create_user_profile (constant_env 0.5) example_user Map.empty) \<noteq> None
           \<and> (\<forall>t\<in>set [gpt4, example_tool].
                 encode (constant_env 0.5) (tool_profile t) \<noteq> None)"
    by (simp add: constant_env_def)
  have w: "work_domain example_user = ''cloud security''"
    "skill_level example_user = ''intermediate''"
    by (simp_all add: example_user_def)
  have m: "map reasoning
             (fst (generate_recommendations (constant_env 0.5) example_user Map.empty
                     [gpt4, example_tool] []))
           = [''Recommended based on relevance to your cloud security work and intermediate skill level.'',
              ''Recommended based on relevance to your cloud security work and intermediate skill level.'']"
    by code_simp
  show ?thesis
    using fallback_reasoning
      [of "constant_env 0.5" "[]" example_tool example_user "0.79" Map.empty
          "[gpt4, example_tool]"] n e m
    by (simp add: w)
qed

end
